theory Spec2Isabelle
  imports Main "HOL-Library.Sublist"
begin

section \<open>pyPreservica: a shallow embedding of the session, entity and package code\<close>

text \<open>
  The development follows the three modules of the package:
  \<^verbatim>\<open>common.py\<close> (file-name sanitising, the authenticated session),
  \<^verbatim>\<open>entityAPI.py\<close> (the entity reads) and \<^verbatim>\<open>uploadAPI.py\<close> (the package builder).
  Python exceptions are values of the type \<open>error\<close>; a function that can raise returns
  \<open>error + 'a\<close>, with \<open>Inl\<close> for the exception.
\<close>

datatype error =
    RuntimeError string
  | RuntimeError_status nat string
  | RuntimeError_ref string string
  | KeyError string
  | IndexError
  | ValueError
  | TypeError string
  | NameError string
  | AttributeError string
  | ParseError
  | JSONDecodeError
  | ConnectionError
  | ConfigParserError
  | MissingSchema
  | RecursionError
  | OSError string

subsection \<open>Python strings of code points, and the string methods \<^verbatim>\<open>sanitize\<close> calls\<close>

text \<open>
  A Python \<^verbatim>\<open>str\<close> is a sequence of Unicode code points, and \<^verbatim>\<open>sanitize\<close> compares
  code points (\<^verbatim>\<open>31 < ord(c)\<close>), so its strings are lists of code points here.
  \<open>ustr\<close> reads an ASCII literal as such a list.
\<close>

type_synonym ustring = "nat list"

definition ustr :: "string \<Rightarrow> ustring" where
  "ustr s = map of_char s"

text \<open>\<^verbatim>\<open>s.rstrip(chars)\<close>: drop the longest suffix made of characters of \<open>chars\<close>.\<close>

definition rstrip :: "ustring \<Rightarrow> ustring \<Rightarrow> ustring" where
  "rstrip chars s = rev (dropWhile (\<lambda>c. c \<in> set chars) (rev s))"

text \<open>
  The characters \<^verbatim>\<open>str.strip()\<close> removes when it is called with no argument: those for
  which \<^verbatim>\<open>str.isspace\<close> holds (CPython's table of Unicode whitespace).
\<close>

definition py_isspace :: "nat \<Rightarrow> bool" where
  "py_isspace c =
     ((9 \<le> c \<and> c \<le> 13) \<or> (28 \<le> c \<and> c \<le> 32) \<or> c = 133 \<or> c = 160 \<or> c = 5760
      \<or> (8192 \<le> c \<and> c \<le> 8202) \<or> c = 8232 \<or> c = 8233 \<or> c = 8239 \<or> c = 8287
      \<or> c = 12288)"

definition strip :: "ustring \<Rightarrow> ustring" where
  "strip s = rev (dropWhile py_isspace (rev (dropWhile py_isspace s)))"

text \<open>\<^verbatim>\<open>s.split(sep)\<close> for a one-character separator: always at least one part.\<close>

fun split_on :: "('a \<Rightarrow> bool) \<Rightarrow> 'a list \<Rightarrow> 'a list list" where
  "split_on sep [] = [[]]"
| "split_on sep (c # cs) =
     (if sep c then [] # split_on sep cs
      else (case split_on sep cs of
              [] \<Rightarrow> [[c]]
            | p # ps \<Rightarrow> (c # p) # ps))"

text \<open>
  Python slices \<^verbatim>\<open>s[:k]\<close> and \<^verbatim>\<open>s[k:]\<close> for an integer \<open>k\<close>: a negative bound counts
  from the end, and both are clamped to the string.
\<close>

definition slice_to :: "'a list \<Rightarrow> int \<Rightarrow> 'a list" where
  "slice_to s k = (if k < 0 then take (nat (int (length s) + k)) s else take (nat k) s)"

definition slice_from :: "'a list \<Rightarrow> int \<Rightarrow> 'a list" where
  "slice_from s k = (if k < 0 then drop (nat (int (length s) + k)) s else drop (nat k) s)"

subsection \<open>\<^verbatim>\<open>sanitize\<close> (common.py)\<close>

definition blacklist :: "ustring" where
  "blacklist = ustr [CHR 0x5C, CHR ''/'', CHR '':'', CHR ''*'', CHR ''?'', CHR 0x22,
                     CHR ''<'', CHR ''>'', CHR ''|'', CHR 0x00]"

definition reserved :: "ustring list" where
  "reserved = map ustr
     [''CON'', ''PRN'', ''AUX'', ''NUL'', ''COM1'', ''COM2'', ''COM3'', ''COM4'', ''COM5'',
      ''COM6'', ''COM7'', ''COM8'', ''COM9'', ''LPT1'', ''LPT2'', ''LPT3'', ''LPT4'', ''LPT5'',
      ''LPT6'', ''LPT7'', ''LPT8'', ''LPT9'']"

text \<open>
  The branch of \<^verbatim>\<open>sanitize\<close> for a name longer than 255 characters. \<^verbatim>\<open>re.split\<close> on
  slash and backslash, then \<^verbatim>\<open>[-1]\<close>, is the last part of \<open>split_on\<close>; \<^verbatim>\<open>parts.pop()\<close>
  is the last of the parts split at the dots.
\<close>

definition shorten :: "ustring \<Rightarrow> ustring" where
  "shorten filename0 =
     (let parts = split_on (\<lambda>c. c = 46) (last (split_on (\<lambda>c. c = 47 \<or> c = 92) filename0));
          ext = (if length parts > 1 then ustr ''.'' @ last parts else []);
          filename1 = (if length parts > 1 then slice_to filename0 (- int (length ext))
                       else filename0);
          filename2 = (if filename1 = [] then ustr ''__'' else filename1);
          ext' = (if length ext > 254 then slice_from ext 254 else ext);
          maxl = 255 - int (length ext');
          filename3 = slice_to filename2 maxl;
          filename4 = filename3 @ ext';
          filename5 = rstrip (ustr ''. '') filename4
      in if length filename5 = 0 then ustr ''__'' else filename5)"

text \<open>
  \<^verbatim>\<open>unicodedata.normalize("NFKD", _)\<close> is the library's: the parameter \<open>nfkd\<close>.
\<close>

definition sanitize :: "(ustring \<Rightarrow> ustring) \<Rightarrow> ustring \<Rightarrow> ustring" where
  "sanitize nfkd filename0 =
     (let filename1 = filter (\<lambda>c. c \<notin> set blacklist) filename0;
          filename2 = filter (\<lambda>c. 31 < c) filename1;
          filename3 = nfkd filename2;
          filename4 = rstrip (ustr ''. '') filename3;
          filename5 = strip filename4;
          filename6 = (if list_all (\<lambda>x. x = 46) filename5 then ustr ''__'' @ filename5
                       else filename5);
          filename7 = (if filename6 \<in> set reserved then ustr ''__'' @ filename6 else filename6);
          filename8 = (if length filename7 = 0 then ustr ''__'' else filename7)
      in if length filename8 > 255 then shorten filename8 else filename8)"

subsection \<open>Python values, the libraries and the network\<close>

text \<open>
  The values the client passes around untyped: \<^verbatim>\<open>None\<close> (also a JSON \<^verbatim>\<open>null\<close>),
  booleans, strings, integers, lists (also for a \<^verbatim>\<open>set\<close>, whose order Python leaves
  open), dictionaries in insertion order, and objects: the class name and the attributes
  the object has been assigned.
\<close>

datatype pyval =
    PNone
  | PBool bool
  | PStr string
  | PInt int
  | PList "pyval list"
  | PDict "(pyval \<times> pyval) list"
  | PObj string "(string \<times> pyval) list"

text \<open>An \<^verbatim>\<open>xml.etree.ElementTree.Element\<close>: tag, attributes, text and children.\<close>

datatype element =
  Element (el_tag: string) (el_attrib: "(string \<times> string) list") (el_text: "string option")
    (el_children: "element list")

text \<open>
  The library functions the client calls, as parameters: \<^verbatim>\<open>json.loads\<close> (and
  \<^verbatim>\<open>response.json()\<close>; \<open>None\<close> when the text is not JSON),
  \<^verbatim>\<open>ElementTree.fromstring\<close> (\<open>None\<close> for a parse error), \<^verbatim>\<open>ElementTree.tostring\<close>,
  \<^verbatim>\<open>hashlib.sha1(...).hexdigest()\<close> and the builtin \<^verbatim>\<open>int\<close> on a string
  (\<open>None\<close> for a ValueError).
\<close>

record lib =
  json_loads :: "string \<Rightarrow> pyval option"
  fromstring :: "string \<Rightarrow> element option"
  tostring :: "element \<Rightarrow> string"
  sha1_hexdigest :: "string \<Rightarrow> string"
  int_of_str :: "string \<Rightarrow> int option"

datatype http_verb = GET | POST | PUT | DELETE

datatype payload = NoData | Form "(string \<times> pyval) list" | Raw string

record request =
  verb :: http_verb
  url :: string
  headers :: "(string \<times> pyval) list"
  params :: "(string \<times> pyval) list"
  body :: payload

record response =
  status_code :: nat
  content :: string

text \<open>
  The world outside the client: \<open>script\<close> lists what each coming HTTP request will meet
  (a response, or the exception the \<^verbatim>\<open>requests\<close> library raises), \<open>sent\<close> is the log
  of the requests issued so far, \<open>clock\<close> is \<^verbatim>\<open>int(time.time())\<close>. The client is
  deterministic, so a server's behaviour in one run is one such script.
\<close>

record world =
  script :: "(error + response) list"
  sent :: "request list"
  clock :: int

definition send :: "request \<Rightarrow> world \<Rightarrow> (error + response) \<times> world" where
  "send rq w =
     (case script w of
        [] \<Rightarrow> (Inl ConnectionError, w\<lparr>sent := sent w @ [rq]\<rparr>)
      | r # rs \<Rightarrow> (r, w\<lparr>script := rs, sent := sent w @ [rq]\<rparr>))"

text \<open>\<^verbatim>\<open>str(n)\<close> for an integer, as the f-strings format it.\<close>

function str_nat :: "nat \<Rightarrow> string" where
  "str_nat n =
     (if n < 10 then [''0123456789'' ! n] else str_nat (n div 10) @ [''0123456789'' ! (n mod 10)])"
  by pat_completeness auto
termination
  by (relation "measure (\<lambda>n. n)") auto

definition str_int :: "int \<Rightarrow> string" where
  "str_int i = (if i < 0 then CHR ''-'' # str_nat (nat (- i)) else str_nat (nat i))"

text \<open>\<^verbatim>\<open>d[key]\<close> on the dictionary \<^verbatim>\<open>json.loads\<close> or \<^verbatim>\<open>response.json()\<close> returns.\<close>

definition json_field :: "lib \<Rightarrow> string \<Rightarrow> string \<Rightarrow> error + pyval" where
  "json_field L txt key =
     (case json_loads L txt of
        None \<Rightarrow> Inl JSONDecodeError
      | Some (PDict d) \<Rightarrow>
          (case map_of d (PStr key) of None \<Rightarrow> Inl (KeyError key) | Some v \<Rightarrow> Inr v)
      | Some (PList xs) \<Rightarrow> Inl (TypeError ''list indices must be integers or slices, not str'')
      | Some (PStr x) \<Rightarrow> Inl (TypeError ''string indices must be integers, not str'')
      | Some other \<Rightarrow> Inl (TypeError ''object is not subscriptable''))"

subsection \<open>The messages and the tags the source writes as literals\<close>

definition password_login_failed :: string where
  "password_login_failed =
     ''Failed to create a password based authentication token. Check your credentials are correct''"

definition shared_secret_login_failed :: string where
  "shared_secret_login_failed =
     ''Failed to create a shared secret authentication token. Check your credentials are correct''"




definition reference_not_found :: string where
  "reference_not_found = ''The requested reference is not found in the repository''"

definition security_tags_unavailable :: string where
  "security_tags_unavailable =
     ''security_tags API call is only available with a Preservica v6.3.1 system or higher''"

text \<open>
  The entity module writes its tags with the v6.0 namespaces in full, as in
  \<^verbatim>\<open>'{http://preservica.com/XIP/v6.0}Content'\<close>.
\<close>

definition xip_tag :: "string \<Rightarrow> string" where
  "xip_tag name = ''{http://preservica.com/XIP/v6.0}'' @ name"

definition entity_tag :: "string \<Rightarrow> string" where
  "entity_tag name = ''{http://preservica.com/EntityAPI/v6.0}'' @ name"

subsection \<open>The authenticated session (common.py, class AuthenticatedAPI)\<close>

definition HEADER_TOKEN :: string where
  "HEADER_TOKEN = ''Preservica-Access-Token''"

definition NS_XIP_ROOT :: string where "NS_XIP_ROOT = ''http://preservica.com/XIP/''"
definition NS_ENTITY_ROOT :: string where "NS_ENTITY_ROOT = ''http://preservica.com/EntityAPI/''"
definition NS_RM_ROOT :: string where "NS_RM_ROOT = ''http://preservica.com/RetentionManagement/''"
definition NS_SEC_ROOT :: string where "NS_SEC_ROOT = ''http://preservica.com/SecurityAPI''"
definition NS_ADMIN :: string where "NS_ADMIN = ''http://preservica.com/AdminAPI''"
definition NS_XIP_V6 :: string where "NS_XIP_V6 = ''http://preservica.com/XIP/v6.0''"
definition NS_ENTITY :: string where "NS_ENTITY = ''http://preservica.com/EntityAPI/v6.0''"
definition IO_PATH :: string where "IO_PATH = ''information-objects''"
definition SO_PATH :: string where "SO_PATH = ''structural-objects''"
definition CO_PATH :: string where "CO_PATH = ''content-objects''"

text \<open>
  The attributes of the client object. An attribute the constructor assigns only on
  some paths (the version numbers, the namespaces) is an option: \<open>None\<close> means the
  attribute is not set, and reading it raises AttributeError. \<open>tenant\<close>, \<open>token\<close>,
  \<open>version\<close> and \<open>roles\<close> are always assigned, possibly to \<^verbatim>\<open>None\<close>.
\<close>

record client =
  username :: string
  password :: string
  tenant :: pyval
  server :: string
  shared_secret :: bool
  token :: pyval
  version :: pyval
  version_hash :: "string option"
  major_version :: "int option"
  minor_version :: "int option"
  patch_version :: "int option"
  xip_ns :: "string option"
  entity_ns :: "string option"
  rm_ns :: "string option"
  sec_ns :: "string option"
  admin_ns :: "string option"
  roles :: pyval

text \<open>
  \<^verbatim>\<open>__token__\<close>. \<open>shared_secret\<close> is a \<^verbatim>\<open>bool\<close> (the constructor stores
  \<^verbatim>\<open>bool(use_shared_secret)\<close>), so exactly one of the two \<^verbatim>\<open>if\<close> blocks runs. With no
  tenant the login also stores the tenant the response names.
\<close>

definition dunder_token :: "lib \<Rightarrow> client \<Rightarrow> world \<Rightarrow> (error + pyval) \<times> client \<times> world" where
  "dunder_token L c w =
     (if \<not> shared_secret c then
        (let data = (if tenant c = PNone
                     then [(''username'', PStr (username c)), (''password'', PStr (password c)),
                           (''includeUserDetails'', PStr ''true'')]
                     else [(''username'', PStr (username c)), (''password'', PStr (password c)),
                           (''tenant'', tenant c)]);
             (r, w1) = send \<lparr>verb = POST,
                              url = ''https://'' @ server c @ ''/api/accesstoken/login'',
                              headers = [], params = [], body = Form data\<rparr> w
         in case r of
              Inl e \<Rightarrow> (Inl e, c, w1)
            | Inr response \<Rightarrow>
                if status_code response = 200 then
                  (if tenant c = PNone then
                     (case json_field L (content response) ''tenant'' of
                        Inl e \<Rightarrow> (Inl e, c, w1)
                      | Inr tn \<Rightarrow> (json_field L (content response) ''token'', c\<lparr>tenant := tn\<rparr>, w1))
                   else (json_field L (content response) ''token'', c, w1))
                else
                  (Inl (RuntimeError_status (status_code response)
                     password_login_failed),
                   c, w1))
      else
        (let endpoint = ''api/accesstoken/acquire-external'';
             timestamp = clock w;
             to_hash = ''preservica-external-auth'' @ str_int timestamp @ username c @ password c;
             data = [(''username'', PStr (username c)), (''tenant'', tenant c),
                     (''timestamp'', PInt timestamp), (''hash'', PStr (sha1_hexdigest L to_hash))];
             (r, w1) = send \<lparr>verb = POST, url = ''https://'' @ server c @ ''/'' @ endpoint,
                              headers = [], params = [], body = Form data\<rparr> w
         in case r of
              Inl e \<Rightarrow> (Inl e, c, w1)
            | Inr response \<Rightarrow>
                if status_code response = 200 then
                  (json_field L (content response) ''token'', c, w1)
                else
                  (Inl (RuntimeError_status (status_code response)
                     shared_secret_login_failed),
                   c, w1)))"

subsection \<open>Fixtures for the closed examples\<close>

text \<open>
  A library whose JSON parser knows two login responses and one user-details response,
  a client, a response and a world with a given script.
\<close>

definition example_lib :: lib where
  "example_lib =
     \<lparr>json_loads = (\<lambda>s. if s = ''J1'' then Some (PDict [(PStr ''token'', PStr ''T1'')])
                        else if s = ''J2'' then Some (PDict [(PStr ''token'', PStr ''T2''), (PStr ''tenant'', PStr ''TEN'')])
                        else if s = ''J3'' then Some (PDict [(PStr ''roles'', PList [PStr ''ROLE_SDB_ACCESS_USER''])])
                        else None),
      fromstring = (\<lambda>s. None),
      tostring = (\<lambda>e. ''''),
      sha1_hexdigest = (\<lambda>s. ''sha1:'' @ s),
      int_of_str = (\<lambda>s. if s = ''6'' then Some 6 else if s = ''7'' then Some 7
                        else if s = ''0'' then Some 0 else if s = ''1'' then Some 1
                        else if s = ''5'' then Some 5 else None)\<rparr>"

definition example_client :: client where
  "example_client =
     \<lparr>username = ''u'', password = ''p'', tenant = PNone, server = ''srv'',
      shared_secret = False, token = PStr ''T0'', version = PNone, version_hash = None,
      major_version = None, minor_version = None, patch_version = None,
      xip_ns = None, entity_ns = None, rm_ns = None, sec_ns = None, admin_ns = None,
      roles = PNone\<rparr>"

definition reply :: "nat \<Rightarrow> string \<Rightarrow> error + response" where
  "reply st txt = Inr \<lparr>status_code = st, content = txt\<rparr>"

definition example_world :: "(error + response) list \<Rightarrow> world" where
  "example_world rs = \<lparr>script = rs, sent = [], clock = 1700000000\<rparr>"

subsection \<open>Version detection and namespaces\<close>

text \<open>\<^verbatim>\<open>s.find(sub)\<close>: the lowest index at which \<open>sub\<close> starts, or \<open>-1\<close>.\<close>

fun find_from :: "nat \<Rightarrow> string \<Rightarrow> string \<Rightarrow> int" where
  "find_from i sub [] = (if sub = [] then int i else - 1)"
| "find_from i sub (c # cs) =
     (if prefix sub (c # cs) then int i else find_from (Suc i) sub cs)"

definition find :: "string \<Rightarrow> string \<Rightarrow> int" where
  "find s sub = find_from 0 sub s"

text \<open>The slice \<^verbatim>\<open>s[a:b]\<close>: negative bounds count from the end, both are clamped.\<close>

definition slice :: "'a list \<Rightarrow> int \<Rightarrow> int \<Rightarrow> 'a list" where
  "slice s a b =
     (let n = int (length s);
          lo = (if a < 0 then max 0 (n + a) else min a n);
          hi = (if b < 0 then max 0 (n + b) else min b n)
      in take (nat (hi - lo)) (drop (nat lo) s))"

text \<open>
  The recursive methods take the number of nested calls the interpreter still allows:
  at \<open>0\<close> the call raises RecursionError.

  \<^verbatim>\<open>__version_number__\<close>. On a status other than 200 and 401 the source builds a
  RuntimeError without raising it, and the method returns \<^verbatim>\<open>None\<close>.
\<close>

primrec dunder_version_number ::
  "nat \<Rightarrow> lib \<Rightarrow> client \<Rightarrow> world \<Rightarrow> (error + pyval) \<times> client \<times> world" where
  "dunder_version_number 0 L c w = (Inl RecursionError, c, w)"
| "dunder_version_number (Suc n) L c w =
     (let c0 = c\<lparr>version_hash := Some ''RHVOMzJHNzdk''\<rparr> in
      case send \<lparr>verb = GET,
                 url = ''https://'' @ server c0 @ ''/api/entity/versiondetails/version'',
                 headers = [(HEADER_TOKEN, token c0)], params = [], body = NoData\<rparr> w of
        (Inl e, w1) \<Rightarrow> (Inl e, c0, w1)
      | (Inr request, w1) \<Rightarrow>
          if status_code request = 200 then
            (let xml = content request;
                 version = slice xml (find xml ''<CurrentVersion>'' + int (length ''<CurrentVersion>''))
                             (find xml ''</CurrentVersion>'');
                 version_numbers = split_on (\<lambda>ch. ch = CHR ''.'') version
             in case version_numbers of
                  [] \<Rightarrow> (Inl IndexError, c0, w1)
                | v0 # vs0 \<Rightarrow>
                   (case int_of_str L v0 of
                      None \<Rightarrow> (Inl ValueError, c0, w1)
                    | Some major \<Rightarrow>
                       (let c1 = c0\<lparr>major_version := Some major\<rparr> in
                        case vs0 of
                          [] \<Rightarrow> (Inl IndexError, c1, w1)
                        | v1 # vs1 \<Rightarrow>
                           (case int_of_str L v1 of
                              None \<Rightarrow> (Inl ValueError, c1, w1)
                            | Some minor \<Rightarrow>
                               (let c2 = c1\<lparr>minor_version := Some minor\<rparr> in
                                case vs1 of
                                  [] \<Rightarrow> (Inl IndexError, c2, w1)
                                | v2 # vs2 \<Rightarrow>
                                   (case int_of_str L v2 of
                                      None \<Rightarrow> (Inl ValueError, c2, w1)
                                    | Some patch \<Rightarrow>
                                        (Inr (PStr version),
                                         c2\<lparr>patch_version := Some patch\<rparr>, w1)))))))
          else if status_code request = 401 then
            (case dunder_token L c0 w1 of
               (Inl e, c1, w2) \<Rightarrow> (Inl e, c1, w2)
             | (Inr t, c1, w2) \<Rightarrow> dunder_version_number n L (c1\<lparr>token := t\<rparr>) w2)
          else (Inr PNone, c0, w1))"

text \<open>
  \<^verbatim>\<open>__version_namespace__\<close>: it assigns the namespaces when the major version is 6, and
  has no branch for another major version.
\<close>

definition dunder_version_namespace :: "client \<Rightarrow> error + client" where
  "dunder_version_namespace c =
     (case major_version c of
        None \<Rightarrow> Inl (AttributeError ''major_version'')
      | Some major \<Rightarrow>
          if major = 6 then
            (case minor_version c of
               None \<Rightarrow> Inl (AttributeError ''minor_version'')
             | Some minor \<Rightarrow>
                 if minor < 2 then Inr (c\<lparr>xip_ns := Some NS_XIP_V6, entity_ns := Some NS_ENTITY\<rparr>)
                 else Inr (c\<lparr>xip_ns := Some (NS_XIP_ROOT @ ''v'' @ str_int major @ ''.'' @ str_int minor),
                            entity_ns := Some (NS_ENTITY_ROOT @ ''v'' @ str_int major @ ''.'' @ str_int minor),
                            rm_ns := Some (NS_RM_ROOT @ ''v'' @ str_int major @ ''.'' @ str_int 2),
                            sec_ns := Some (NS_SEC_ROOT @ ''/v'' @ str_int major @ ''.'' @ str_int minor),
                            admin_ns := Some (NS_ADMIN @ ''/v'' @ str_int major @ ''.'' @ str_int minor)\<rparr>))
          else Inr c)"

text \<open>\<^verbatim>\<open>__find_user_roles_\<close>: on a status other than 200 and 401 it returns \<^verbatim>\<open>None\<close>.\<close>

primrec dunder_find_user_roles ::
  "nat \<Rightarrow> lib \<Rightarrow> client \<Rightarrow> world \<Rightarrow> (error + pyval) \<times> client \<times> world" where
  "dunder_find_user_roles 0 L c w = (Inl RecursionError, c, w)"
| "dunder_find_user_roles (Suc n) L c w =
     (case send \<lparr>verb = GET, url = ''https://'' @ server c @ ''/api/user/details'',
                 headers = [(HEADER_TOKEN, token c),
                            (''Content-Type'', PStr ''application/xml;charset=UTF-8'')],
                 params = [], body = NoData\<rparr> w of
        (Inl e, w1) \<Rightarrow> (Inl e, c, w1)
      | (Inr request, w1) \<Rightarrow>
          if status_code request = 200 then (json_field L (content request) ''roles'', c, w1)
          else if status_code request = 401 then
            (case dunder_token L c w1 of
               (Inl e, c1, w2) \<Rightarrow> (Inl e, c1, w2)
             | (Inr t, c1, w2) \<Rightarrow> dunder_find_user_roles n L (c1\<lparr>token := t\<rparr>) w2)
          else (Inr PNone, c, w1))"

subsection \<open>The constructor\<close>





text \<open>
  The end of the constructor, from \<^verbatim>\<open>self.token = self.__token__()\<close> on:
  token, version, namespaces, roles, and the two \<^verbatim>\<open>logger.debug\<close> calls that read
  \<^verbatim>\<open>self.xip_ns\<close> and \<^verbatim>\<open>self.entity_ns\<close>.
\<close>

definition connect :: "nat \<Rightarrow> lib \<Rightarrow> client \<Rightarrow> world \<Rightarrow> (error + client) \<times> world" where
  "connect n L c w =
     (case dunder_token L c w of
        (Inl e, c1, w1) \<Rightarrow> (Inl e, w1)
      | (Inr t, c1, w1) \<Rightarrow>
         (case dunder_version_number n L (c1\<lparr>token := t\<rparr>) w1 of
            (Inl e, c2, w2) \<Rightarrow> (Inl e, w2)
          | (Inr v, c2, w2) \<Rightarrow>
             (case dunder_version_namespace (c2\<lparr>version := v\<rparr>) of
                Inl e \<Rightarrow> (Inl e, w2)
              | Inr c3 \<Rightarrow>
                 (case dunder_find_user_roles n L c3 w2 of
                    (Inl e, c4, w3) \<Rightarrow> (Inl e, w3)
                  | (Inr rs, c4, w3) \<Rightarrow>
                     (let c5 = c4\<lparr>roles := rs\<rparr> in
                      if xip_ns c5 = None then (Inl (AttributeError ''xip_ns''), w3)
                      else if entity_ns c5 = None then (Inl (AttributeError ''entity_ns''), w3)
                      else (Inr c5, w3))))))"





text \<open>
  What a call leaves of the credentials: username, password, server and the mode are
  as they were, and so is the tenant, unless there was none and the mode is the password
  login.
\<close>

definition credentials_kept :: "client \<Rightarrow> client \<Rightarrow> bool" where
  "credentials_kept c c' =
     (username c' = username c \<and> password c' = password c \<and> server c' = server c
      \<and> shared_secret c' = shared_secret c
      \<and> (tenant c' = tenant c \<or> (tenant c = PNone \<and> \<not> shared_secret c)))"


subsection \<open>Python objects and XML trees\<close>

text \<open>
  \<^verbatim>\<open>obj.name\<close>: the attribute when the object has been assigned one of that name,
  AttributeError otherwise.
\<close>

definition getattr :: "pyval \<Rightarrow> string \<Rightarrow> error + pyval" where
  "getattr obj name =
     (case obj of
        PObj cls attrs \<Rightarrow>
          (case map_of attrs name of None \<Rightarrow> Inl (AttributeError name) | Some v \<Rightarrow> Inr v)
      | _ \<Rightarrow> Inl (AttributeError name))"

text \<open>\<^verbatim>\<open>isinstance(obj, C)\<close> for the entity classes, none of which has a subclass.\<close>

definition isinstance :: "pyval \<Rightarrow> string \<Rightarrow> bool" where
  "isinstance obj cls = (case obj of PObj c attrs \<Rightarrow> c = cls | _ \<Rightarrow> False)"

text \<open>
  How an f-string formats a value: a string as it is, \<^verbatim>\<open>None\<close> as \<open>None\<close>, an integer
  in decimal. The other values are formatted by their \<^verbatim>\<open>repr\<close>, which no URL of the
  client's needs: they stand as a placeholder.
\<close>

definition fstr :: "pyval \<Rightarrow> string" where
  "fstr v =
     (case v of
        PStr s \<Rightarrow> s
      | PNone \<Rightarrow> ''None''
      | PInt i \<Rightarrow> str_int i
      | PBool b \<Rightarrow> (if b then ''True'' else ''False'')
      | _ \<Rightarrow> ''<repr>'')"

text \<open>\<^verbatim>\<open>d[k] = v\<close> on a dictionary kept in insertion order.\<close>

fun dict_set :: "('k \<times> 'v) list \<Rightarrow> 'k \<Rightarrow> 'v \<Rightarrow> ('k \<times> 'v) list" where
  "dict_set [] k v = [(k, v)]"
| "dict_set ((k', v') # d) k v = (if k' = k then (k, v) # d else (k', v') # dict_set d k v)"

text \<open>The classes of common.py, by their constructors.\<close>

definition EntityType :: "string \<Rightarrow> pyval" where
  "EntityType v = PObj ''EntityType'' [(''value'', PStr v)]"

definition Entity :: "pyval \<Rightarrow> pyval \<Rightarrow> pyval \<Rightarrow> pyval \<Rightarrow> pyval \<Rightarrow> pyval \<Rightarrow> (string \<times> pyval) list" where
  "Entity = (\<lambda>reference title description security_tag parent metadata.
     [(''reference'', reference), (''title'', title), (''description'', description),
      (''security_tag'', security_tag), (''parent'', parent), (''metadata'', metadata)])"

definition Folder :: "pyval \<Rightarrow> pyval \<Rightarrow> pyval \<Rightarrow> pyval \<Rightarrow> pyval \<Rightarrow> pyval \<Rightarrow> pyval" where
  "Folder reference title description security_tag parent metadata =
     PObj ''Folder''
       (Entity reference title description security_tag parent metadata
        @ [(''entity_type'', EntityType ''SO''), (''path'', PStr SO_PATH),
           (''tag'', PStr ''StructuralObject'')])"

definition Asset :: "pyval \<Rightarrow> pyval \<Rightarrow> pyval \<Rightarrow> pyval \<Rightarrow> pyval \<Rightarrow> pyval \<Rightarrow> pyval" where
  "Asset reference title description security_tag parent metadata =
     PObj ''Asset''
       (Entity reference title description security_tag parent metadata
        @ [(''entity_type'', EntityType ''IO''), (''path'', PStr IO_PATH),
           (''tag'', PStr ''InformationObject'')])"

definition ContentObject :: "pyval \<Rightarrow> pyval \<Rightarrow> pyval \<Rightarrow> pyval \<Rightarrow> pyval \<Rightarrow> pyval \<Rightarrow> pyval" where
  "ContentObject reference title description security_tag parent metadata =
     PObj ''ContentObject''
       (Entity reference title description security_tag parent metadata
        @ [(''entity_type'', EntityType ''CO''), (''representation_type'', PNone),
           (''asset'', PNone), (''path'', PStr CO_PATH), (''tag'', PStr ''ContentObject'')])"

definition Representation :: "pyval \<Rightarrow> pyval \<Rightarrow> pyval \<Rightarrow> pyval \<Rightarrow> pyval" where
  "Representation asset rep_type name url' =
     PObj ''Representation''
       [(''asset'', asset), (''rep_type'', rep_type), (''name'', name), (''url'', url')]"

text \<open>\<^verbatim>\<open>int(x)\<close> where the source passes an element's text: TypeError for \<^verbatim>\<open>None\<close>.\<close>

definition py_int :: "lib \<Rightarrow> string option \<Rightarrow> error + int" where
  "py_int L x =
     (case x of
        None \<Rightarrow> Inl (TypeError ''int() argument must be a string, a bytes-like object or a real number, not NoneType'')
      | Some s \<Rightarrow> (case int_of_str L s of None \<Rightarrow> Inl ValueError | Some i \<Rightarrow> Inr i))"

definition opt_str :: "string option \<Rightarrow> pyval" where
  "opt_str x = (case x of None \<Rightarrow> PNone | Some s \<Rightarrow> PStr s)"

definition Bitstream :: "lib \<Rightarrow> pyval \<Rightarrow> string option \<Rightarrow> pyval \<Rightarrow> pyval \<Rightarrow> error + pyval" where
  "Bitstream L filename length' fixity content_url =
     (case py_int L length' of
        Inl e \<Rightarrow> Inl e
      | Inr len \<Rightarrow> Inr (PObj ''Bitstream''
          [(''filename'', filename), (''length'', PInt len), (''fixity'', fixity),
           (''content_url'', content_url)]))"

definition Generation :: "bool \<Rightarrow> bool \<Rightarrow> pyval \<Rightarrow> pyval \<Rightarrow> pyval \<Rightarrow> pyval" where
  "Generation original active format_group effective_date bitstreams =
     PObj ''Generation''
       [(''original'', PBool original), (''active'', PBool active), (''content_object'', PNone),
        (''format_group'', format_group), (''effective_date'', effective_date),
        (''bitstreams'', bitstreams)]"

definition PagedSet :: "lib \<Rightarrow> pyval \<Rightarrow> bool \<Rightarrow> string option \<Rightarrow> pyval \<Rightarrow> error + pyval" where
  "PagedSet L results has_more total_hits next_page =
     (case py_int L total_hits of
        Inl e \<Rightarrow> Inl e
      | Inr tot \<Rightarrow> Inr (PObj ''PagedSet''
          [(''results'', results), (''has_more'', PBool has_more), (''total'', PInt tot),
           (''next_page'', next_page)]))"

text \<open>\<^verbatim>\<open>obj.name = v\<close> on an object.\<close>

definition setattr :: "pyval \<Rightarrow> string \<Rightarrow> pyval \<Rightarrow> pyval" where
  "setattr obj name v = (case obj of PObj cls attrs \<Rightarrow> PObj cls (dict_set attrs name v) | _ \<Rightarrow> obj)"

text \<open>
  ElementTree: the proper descendants of an element in document order, and the path
  searches the client uses: \<^verbatim>\<open>findall('.//TAG')\<close>, \<^verbatim>\<open>find('.//TAG')\<close> and
  \<^verbatim>\<open>findall('.//A/B')\<close>. A tag carries its namespace in braces.
\<close>

fun descendants :: "element \<Rightarrow> element list" where
  "descendants (Element t a x cs) = concat (map (\<lambda>ch. ch # descendants ch) cs)"

definition findall :: "element \<Rightarrow> string \<Rightarrow> element list" where
  "findall root tg = filter (\<lambda>e. el_tag e = tg) (descendants root)"

definition find_element :: "element \<Rightarrow> string \<Rightarrow> element option" where
  "find_element root tg = (case findall root tg of [] \<Rightarrow> None | e # es \<Rightarrow> Some e)"

definition findall_child :: "element \<Rightarrow> string \<Rightarrow> string \<Rightarrow> element list" where
  "findall_child root a b =
     concat (map (\<lambda>e. filter (\<lambda>ch. el_tag ch = b) (el_children e)) (findall root a))"

text \<open>\<^verbatim>\<open>e.attrib[key]\<close>.\<close>

definition attrib :: "element \<Rightarrow> string \<Rightarrow> error + string" where
  "attrib e key = (case map_of (el_attrib e) key of None \<Rightarrow> Inl (KeyError key) | Some v \<Rightarrow> Inr v)"

text \<open>\<^verbatim>\<open>x.text if hasattr(x, 'text') else None\<close> for the result of a \<^verbatim>\<open>find\<close>.\<close>

definition text_or_none :: "element option \<Rightarrow> pyval" where
  "text_or_none x = (case x of None \<Rightarrow> PNone | Some e \<Rightarrow> opt_str (el_text e))"

text \<open>\<^verbatim>\<open>x.text\<close> for the result of a \<^verbatim>\<open>find\<close>: AttributeError on \<^verbatim>\<open>None\<close>.\<close>

definition text_of :: "element option \<Rightarrow> error + string option" where
  "text_of x = (case x of None \<Rightarrow> Inl (AttributeError ''text'') | Some e \<Rightarrow> Inr (el_text e))"

text \<open>A \<^verbatim>\<open>for\<close> loop whose body may raise, collecting what the body yields.\<close>

fun for_each :: "('a \<Rightarrow> error + 'b) \<Rightarrow> 'a list \<Rightarrow> error + 'b list" where
  "for_each f [] = Inr []"
| "for_each f (x # xs) =
     (case f x of
        Inl e \<Rightarrow> Inl e
      | Inr y \<Rightarrow> (case for_each f xs of Inl e \<Rightarrow> Inl e | Inr ys \<Rightarrow> Inr (y # ys)))"

text \<open>The same, for a body that calls the server: client and world are threaded through.\<close>

fun for_each_call ::
  "('a \<Rightarrow> client \<Rightarrow> world \<Rightarrow> (error + 'b) \<times> client \<times> world) \<Rightarrow> 'a list \<Rightarrow> client \<Rightarrow> world
     \<Rightarrow> (error + 'b list) \<times> client \<times> world" where
  "for_each_call f [] c w = (Inr [], c, w)"
| "for_each_call f (x # xs) c w =
     (case f x c w of
        (Inl e, c1, w1) \<Rightarrow> (Inl e, c1, w1)
      | (Inr y, c1, w1) \<Rightarrow>
          (case for_each_call f xs c1 w1 of
             (Inl e, c2, w2) \<Rightarrow> (Inl e, c2, w2)
           | (Inr ys, c2, w2) \<Rightarrow> (Inr (y # ys), c2, w2)))"

text \<open>\<^verbatim>\<open>requests.get(url, headers=...)\<close> with the token header.\<close>

definition get_request :: "string \<Rightarrow> pyval \<Rightarrow> request" where
  "get_request u tok =
     \<lparr>verb = GET, url = u, headers = [(HEADER_TOKEN, tok)], params = [], body = NoData\<rparr>"

subsection \<open>\<^verbatim>\<open>entity_from_string\<close> (common.py) and the names of the module entityAPI.py\<close>

definition entity_from_string :: "lib \<Rightarrow> client \<Rightarrow> string \<Rightarrow> error + (string \<times> pyval) list" where
  "entity_from_string L c xml_data =
     (case fromstring L xml_data of
        None \<Rightarrow> Inl ParseError
      | Some entity_response \<Rightarrow>
         (case xip_ns c of
            None \<Rightarrow> Inl (AttributeError ''xip_ns'')
          | Some xip \<Rightarrow>
             (let reference = find_element entity_response (''{'' @ xip @ ''}Ref'');
                  title = find_element entity_response (''{'' @ xip @ ''}Title'');
                  security_tag = find_element entity_response (''{'' @ xip @ ''}SecurityTag'');
                  description = find_element entity_response (''{'' @ xip @ ''}Description'');
                  parent = text_or_none (find_element entity_response (''{'' @ xip @ ''}Parent''))
              in case entity_ns c of
                   None \<Rightarrow> Inl (AttributeError ''entity_ns'')
                 | Some ens \<Rightarrow>
                    (let fragments = findall_child entity_response
                           (''{'' @ ens @ ''}Metadata'') (''{'' @ ens @ ''}Fragment'')
                     in case for_each (\<lambda>fragment. case attrib fragment ''schema'' of
                                          Inl e \<Rightarrow> Inl e
                                        | Inr sch \<Rightarrow> Inr (opt_str (el_text fragment), PStr sch))
                               fragments of
                          Inl e \<Rightarrow> Inl e
                        | Inr pairs \<Rightarrow>
                           (let metadata = fold (\<lambda>(k, v) d. dict_set d k v) pairs []
                            in case text_of reference of
                                 Inl e \<Rightarrow> Inl e
                               | Inr ref_text \<Rightarrow>
                                  (case text_of security_tag of
                                     Inl e \<Rightarrow> Inl e
                                   | Inr tag_text \<Rightarrow>
                                       Inr [(''reference'', opt_str ref_text),
                                            (''title'', text_or_none title),
                                            (''description'', text_or_none description),
                                            (''security_tag'', opt_str tag_text),
                                            (''parent'', parent),
                                            (''metadata'', PDict metadata)]))))))"

text \<open>
  The global names of the module entityAPI.py: its own imports, the public names that
  \<^verbatim>\<open>from pyPreservica.common import *\<close> brings (common.py has no \<^verbatim>\<open>__all__\<close>), and the
  class the module defines. \<^verbatim>\<open>entity_from_string\<close> is defined in common.py as a method
  of AuthenticatedAPI only, so it is not among them.
\<close>

definition entityAPI_globals :: "string list" where
  "entityAPI_globals =
     [''sys'', ''uuid'', ''datetime'', ''timedelta'', ''timezone'', ''sleep'', ''xml'', ''IOBase'',
      ''Optional'',
      ''configparser'', ''hashlib'', ''json'', ''logging'', ''os'', ''re'', ''threading'', ''time'',
      ''unicodedata'', ''Enum'', ''requests'', ''pyPreservica'', ''logger'', ''CHUNK_SIZE'',
      ''NS_XIP_ROOT'', ''NS_ENTITY_ROOT'', ''NS_RM_ROOT'', ''NS_SEC_ROOT'', ''NS_WORKFLOW'',
      ''NS_ADMIN'', ''NS_XIP_V6'', ''NS_ENTITY'', ''HEADER_TOKEN'', ''IO_PATH'', ''SO_PATH'',
      ''CO_PATH'', ''HASH_BLOCK_SIZE'', ''FileHash'', ''strtobool'', ''PagedSet'',
      ''Sha1FixityCallBack'', ''Sha256FixityCallBack'', ''Sha512FixityCallBack'',
      ''ReportProgressConsoleCallback'', ''UploadProgressConsoleCallback'',
      ''UploadProgressCallback'', ''RelationshipDirection'', ''EntityType'', ''HTTPException'',
      ''ReferenceNotFoundException'', ''Relationship'', ''IntegrityCheck'', ''Bitstream'',
      ''Generation'', ''Entity'', ''Folder'', ''Asset'', ''ContentObject'', ''Representation'',
      ''only_assets'', ''only_folders'', ''content_api_identifier_to_type'', ''Thumbnail'',
      ''sanitize'', ''AuthenticatedAPI'', ''EntityAPI'']"

text \<open>Reading a global name of entityAPI.py: NameError when the module does not bind it.\<close>

definition load_global :: "string \<Rightarrow> error + string" where
  "load_global name = (if name \<in> set entityAPI_globals then Inr name else Inl (NameError name))"

text \<open>
  \<^verbatim>\<open>entity = entity_from_string(xml_response)\<close> as entityAPI.py writes it: the global name
  is looked up first; were it bound, the call would be the parser of common.py.
\<close>

definition call_entity_from_string :: "lib \<Rightarrow> client \<Rightarrow> string \<Rightarrow> error + (string \<times> pyval) list" where
  "call_entity_from_string L c xml_response =
     (case load_global ''entity_from_string'' of
        Inl e \<Rightarrow> Inl e
      | Inr f \<Rightarrow> entity_from_string L c xml_response)"

text \<open>\<^verbatim>\<open>entity['key']\<close> on the dictionary \<^verbatim>\<open>entity_from_string\<close> returns.\<close>

definition item :: "(string \<times> pyval) list \<Rightarrow> string \<Rightarrow> pyval" where
  "item d key = (case map_of d key of None \<Rightarrow> PNone | Some v \<Rightarrow> v)"

subsection \<open>The entity reads (entityAPI.py, class EntityAPI)\<close>

text \<open>
  Each method sends one request; on 401 it assigns a fresh token and calls itself with
  the same arguments; the first argument of the model is the depth of recursion left.
\<close>

primrec asset :: "nat \<Rightarrow> lib \<Rightarrow> client \<Rightarrow> string \<Rightarrow> world \<Rightarrow> (error + pyval) \<times> client \<times> world" where
  "asset 0 L c reference w = (Inl RecursionError, c, w)"
| "asset (Suc n) L c reference w =
     (case send (get_request (''https://'' @ server c @ ''/api/entity/'' @ IO_PATH @ ''/'' @ reference)
                   (token c)) w of
        (Inl e, w1) \<Rightarrow> (Inl e, c, w1)
      | (Inr request, w1) \<Rightarrow>
          if status_code request = 200 then
            (case call_entity_from_string L c (content request) of
               Inl e \<Rightarrow> (Inl e, c, w1)
             | Inr entity \<Rightarrow>
                 (Inr (Asset (item entity ''reference'') (item entity ''title'')
                         (item entity ''description'') (item entity ''security_tag'')
                         (item entity ''parent'') (item entity ''metadata'')), c, w1))
          else if status_code request = 401 then
            (case dunder_token L c w1 of
               (Inl e, c1, w2) \<Rightarrow> (Inl e, c1, w2)
             | (Inr t, c1, w2) \<Rightarrow> asset n L (c1\<lparr>token := t\<rparr>) reference w2)
          else if status_code request = 404 then
            (Inl (RuntimeError_ref reference reference_not_found),
             c, w1)
          else (Inl (RuntimeError_status (status_code request) (''asset failed for '' @ reference)),
                c, w1))"

primrec folder :: "nat \<Rightarrow> lib \<Rightarrow> client \<Rightarrow> string \<Rightarrow> world \<Rightarrow> (error + pyval) \<times> client \<times> world" where
  "folder 0 L c reference w = (Inl RecursionError, c, w)"
| "folder (Suc n) L c reference w =
     (case send (get_request (''https://'' @ server c @ ''/api/entity/'' @ SO_PATH @ ''/'' @ reference)
                   (token c)) w of
        (Inl e, w1) \<Rightarrow> (Inl e, c, w1)
      | (Inr request, w1) \<Rightarrow>
          if status_code request = 200 then
            (case call_entity_from_string L c (content request) of
               Inl e \<Rightarrow> (Inl e, c, w1)
             | Inr entity \<Rightarrow>
                 (Inr (Folder (item entity ''reference'') (item entity ''title'')
                         (item entity ''description'') (item entity ''security_tag'')
                         (item entity ''parent'') (item entity ''metadata'')), c, w1))
          else if status_code request = 401 then
            (case dunder_token L c w1 of
               (Inl e, c1, w2) \<Rightarrow> (Inl e, c1, w2)
             | (Inr t, c1, w2) \<Rightarrow> folder n L (c1\<lparr>token := t\<rparr>) reference w2)
          else if status_code request = 404 then
            (Inl (RuntimeError_ref reference reference_not_found),
             c, w1)
          else (Inl (RuntimeError_status (status_code request) (''folder failed for '' @ reference)),
                c, w1))"

primrec content_object :: "nat \<Rightarrow> lib \<Rightarrow> client \<Rightarrow> string \<Rightarrow> world \<Rightarrow> (error + pyval) \<times> client \<times> world" where
  "content_object 0 L c reference w = (Inl RecursionError, c, w)"
| "content_object (Suc n) L c reference w =
     (case send (get_request (''https://'' @ server c @ ''/api/entity/'' @ CO_PATH @ ''/'' @ reference)
                   (token c)) w of
        (Inl e, w1) \<Rightarrow> (Inl e, c, w1)
      | (Inr request, w1) \<Rightarrow>
          if status_code request = 200 then
            (case call_entity_from_string L c (content request) of
               Inl e \<Rightarrow> (Inl e, c, w1)
             | Inr entity \<Rightarrow>
                 (Inr (ContentObject (item entity ''reference'') (item entity ''title'')
                         (item entity ''description'') (item entity ''security_tag'')
                         (item entity ''parent'') (item entity ''metadata'')), c, w1))
          else if status_code request = 401 then
            (case dunder_token L c w1 of
               (Inl e, c1, w2) \<Rightarrow> (Inl e, c1, w2)
             | (Inr t, c1, w2) \<Rightarrow> content_object n L (c1\<lparr>token := t\<rparr>) reference w2)
          else if status_code request = 404 then
            (Inl (RuntimeError_ref reference reference_not_found),
             c, w1)
          else (Inl (RuntimeError_status (status_code request)
                       (''content_object failed for '' @ reference)), c, w1))"

text \<open>
  \<^verbatim>\<open>metadata(uri)\<close>: \<^verbatim>\<open>content[0]\<close> raises TypeError when no Content element is found
  and IndexError when it has no child.
\<close>

primrec metadata :: "nat \<Rightarrow> lib \<Rightarrow> client \<Rightarrow> string \<Rightarrow> world \<Rightarrow> (error + pyval) \<times> client \<times> world" where
  "metadata 0 L c uri w = (Inl RecursionError, c, w)"
| "metadata (Suc n) L c uri w =
     (case send (get_request uri (token c)) w of
        (Inl e, w1) \<Rightarrow> (Inl e, c, w1)
      | (Inr request, w1) \<Rightarrow>
          if status_code request = 200 then
            (case fromstring L (content request) of
               None \<Rightarrow> (Inl ParseError, c, w1)
             | Some entity_response \<Rightarrow>
                (case find_element entity_response (xip_tag ''Content'') of
                   None \<Rightarrow> (Inl (TypeError ''NoneType object is not subscriptable''), c, w1)
                 | Some content' \<Rightarrow>
                    (case el_children content' of
                       [] \<Rightarrow> (Inl IndexError, c, w1)
                     | ch # chs \<Rightarrow> (Inr (PStr (tostring L ch)), c, w1))))
          else if status_code request = 401 then
            (case dunder_token L c w1 of
               (Inl e, c1, w2) \<Rightarrow> (Inl e, c1, w2)
             | (Inr t, c1, w2) \<Rightarrow> metadata n L (c1\<lparr>token := t\<rparr>) uri w2)
          else (Inl (RuntimeError_status (status_code request) (''metadata failed for '' @ uri)),
                c, w1))"

text \<open>The body of the loop of \<^verbatim>\<open>children\<close> over the Child elements.\<close>

definition child_entity :: "pyval \<Rightarrow> element \<Rightarrow> error + pyval" where
  "child_entity folder_reference ch =
     (case attrib ch ''type'' of
        Inl e \<Rightarrow> Inl e
      | Inr ty \<Rightarrow>
         (case attrib ch ''ref'' of
            Inl e \<Rightarrow> Inl e
          | Inr rf \<Rightarrow>
             (case attrib ch ''title'' of
                Inl e \<Rightarrow> Inl e
              | Inr ti \<Rightarrow>
                  if ty = ''SO'' then Inr (Folder (PStr rf) (PStr ti) PNone PNone folder_reference PNone)
                  else Inr (Asset (PStr rf) (PStr ti) PNone PNone folder_reference PNone))))"

primrec children ::
  "nat \<Rightarrow> lib \<Rightarrow> client \<Rightarrow> string option \<Rightarrow> int \<Rightarrow> string option \<Rightarrow> world
     \<Rightarrow> (error + pyval) \<times> client \<times> world" where
  "children 0 L c folder_reference maximum next_page w = (Inl RecursionError, c, w)"
| "children (Suc n) L c folder_reference maximum next_page w =
     (case send (get_request
                   (case next_page of
                      None \<Rightarrow>
                        (case folder_reference of
                           None \<Rightarrow> ''https://'' @ server c @ ''/api/entity/root/children?start=''
                                     @ str_int 0 @ ''&max='' @ str_int maximum
                         | Some fr \<Rightarrow> ''https://'' @ server c @ ''/api/entity/structural-objects/'' @ fr
                                     @ ''/children?start='' @ str_int 0 @ ''&max='' @ str_int maximum)
                    | Some np \<Rightarrow> np)
                   (token c)) w of
        (Inl e, w1) \<Rightarrow> (Inl e, c, w1)
      | (Inr request, w1) \<Rightarrow>
          if status_code request = 200 then
            (case fromstring L (content request) of
               None \<Rightarrow> (Inl ParseError, c, w1)
             | Some entity_response \<Rightarrow>
                (let childs = findall entity_response (entity_tag ''Child'');
                     next_url = find_element entity_response (entity_tag ''Next'');
                     total_hits = find_element entity_response
                                    (entity_tag ''TotalResults'')
                 in case for_each (child_entity (opt_str folder_reference)) childs of
                      Inl e \<Rightarrow> (Inl e, c, w1)
                    | Inr result \<Rightarrow>
                       (let has_more = (next_url \<noteq> None);
                            url' = (case next_url of None \<Rightarrow> PNone | Some e \<Rightarrow> opt_str (el_text e))
                        in case text_of total_hits of
                             Inl e \<Rightarrow> (Inl e, c, w1)
                           | Inr tt \<Rightarrow> (PagedSet L (PList result) has_more tt url', c, w1))))
          else if status_code request = 401 then
            (case dunder_token L c w1 of
               (Inl e, c1, w2) \<Rightarrow> (Inl e, c1, w2)
             | (Inr t, c1, w2) \<Rightarrow>
                 children n L (c1\<lparr>token := t\<rparr>) folder_reference maximum next_page w2)
          else (Inl (RuntimeError_status (status_code request) ''children failed''), c, w1))"

text \<open>
  \<^verbatim>\<open>identifiers_for_entity\<close> and \<^verbatim>\<open>representations\<close> build their URL from
  \<^verbatim>\<open>entity._path\<close>. The classes of common.py assign \<^verbatim>\<open>path\<close>, not \<^verbatim>\<open>_path\<close>.
\<close>

definition identifier_pair :: "element \<Rightarrow> pyval" where
  "identifier_pair identifier =
     (let (identifier_type, identifier_value) =
            fold (\<lambda>child (ty, va).
                    (if el_tag child = (xip_tag ''Type'')
                     then opt_str (el_text child) else ty,
                     if el_tag child = (xip_tag ''Value'')
                     then opt_str (el_text child) else va))
                 (el_children identifier) (PStr '''', PStr '''')
      in PList [identifier_type, identifier_value])"

primrec identifiers_for_entity ::
  "nat \<Rightarrow> lib \<Rightarrow> client \<Rightarrow> pyval \<Rightarrow> world \<Rightarrow> (error + pyval) \<times> client \<times> world" where
  "identifiers_for_entity 0 L c entity w = (Inl RecursionError, c, w)"
| "identifiers_for_entity (Suc n) L c entity w =
     (case getattr entity ''_path'' of
        Inl e \<Rightarrow> (Inl e, c, w)
      | Inr path' \<Rightarrow>
       (case getattr entity ''reference'' of
          Inl e \<Rightarrow> (Inl e, c, w)
        | Inr reference \<Rightarrow>
         (case send (get_request (''https://'' @ server c @ ''/api/entity/'' @ fstr path' @ ''/''
                                   @ fstr reference @ ''/identifiers'') (token c)) w of
            (Inl e, w1) \<Rightarrow> (Inl e, c, w1)
          | (Inr request, w1) \<Rightarrow>
              if status_code request = 200 then
                (case fromstring L (content request) of
                   None \<Rightarrow> (Inl ParseError, c, w1)
                 | Some entity_response \<Rightarrow>
                     (Inr (PList (remdups (map identifier_pair
                             (findall entity_response (xip_tag ''Identifier''))))),
                      c, w1))
              else if status_code request = 401 then
                (case dunder_token L c w1 of
                   (Inl e, c1, w2) \<Rightarrow> (Inl e, c1, w2)
                 | (Inr t, c1, w2) \<Rightarrow> identifiers_for_entity n L (c1\<lparr>token := t\<rparr>) entity w2)
              else (Inl (RuntimeError_status (status_code request) ''identifiers_for_entity failed''),
                    c, w1))))"

definition representation_of :: "pyval \<Rightarrow> element \<Rightarrow> error + pyval" where
  "representation_of asset' r =
     (case attrib r ''type'' of
        Inl e \<Rightarrow> Inl e
      | Inr ty \<Rightarrow>
         (case attrib r ''name'' of
            Inl e \<Rightarrow> Inl e
          | Inr nm \<Rightarrow> Inr (Representation asset' (PStr ty) (PStr nm) (opt_str (el_text r)))))"

primrec representations ::
  "nat \<Rightarrow> lib \<Rightarrow> client \<Rightarrow> pyval \<Rightarrow> world \<Rightarrow> (error + pyval) \<times> client \<times> world" where
  "representations 0 L c asset' w = (Inl RecursionError, c, w)"
| "representations (Suc n) L c asset' w =
     (if \<not> isinstance asset' ''Asset'' then (Inr PNone, c, w)
      else
      (case getattr asset' ''_path'' of
        Inl e \<Rightarrow> (Inl e, c, w)
      | Inr path' \<Rightarrow>
       (case getattr asset' ''reference'' of
          Inl e \<Rightarrow> (Inl e, c, w)
        | Inr reference \<Rightarrow>
         (case send (get_request (''https://'' @ server c @ ''/api/entity/'' @ fstr path' @ ''/''
                                   @ fstr reference @ ''/representations'') (token c)) w of
            (Inl e, w1) \<Rightarrow> (Inl e, c, w1)
          | (Inr request, w1) \<Rightarrow>
              if status_code request = 200 then
                (case fromstring L (content request) of
                   None \<Rightarrow> (Inl ParseError, c, w1)
                 | Some entity_response \<Rightarrow>
                    (case for_each (representation_of asset')
                            (findall entity_response
                               (entity_tag ''Representation'')) of
                       Inl e \<Rightarrow> (Inl e, c, w1)
                     | Inr result \<Rightarrow> (Inr (PList result), c, w1)))
              else if status_code request = 401 then
                (case dunder_token L c w1 of
                   (Inl e, c1, w2) \<Rightarrow> (Inl e, c1, w2)
                 | (Inr t, c1, w2) \<Rightarrow> representations n L (c1\<lparr>token := t\<rparr>) asset' w2)
              else (Inl (RuntimeError_status (status_code request) ''representations failed''),
                    c, w1)))))"

text \<open>
  \<^verbatim>\<open>bitstream(url)\<close>. The URL is the text of an element and may be \<^verbatim>\<open>None\<close>, which
  \<^verbatim>\<open>requests.get\<close> refuses (MissingSchema) before anything is sent. \<^verbatim>\<open>f[0]\<close> and
  \<^verbatim>\<open>f[1]\<close> are the first two children of a Fixity element.
\<close>

definition fixity_entry :: "element \<Rightarrow> error + pyval \<times> pyval" where
  "fixity_entry f =
     (case el_children f of
        [] \<Rightarrow> Inl IndexError
      | [f0] \<Rightarrow> Inl IndexError
      | f0 # f1 # fs \<Rightarrow> Inr (opt_str (el_text f0), opt_str (el_text f1)))"

primrec bitstream ::
  "nat \<Rightarrow> lib \<Rightarrow> string option \<Rightarrow> client \<Rightarrow> world \<Rightarrow> (error + pyval) \<times> client \<times> world" where
  "bitstream 0 L url' c w = (Inl RecursionError, c, w)"
| "bitstream (Suc n) L url' c w =
     (case url' of
        None \<Rightarrow> (Inl MissingSchema, c, w)
      | Some u \<Rightarrow>
       (case send (get_request u (token c)) w of
          (Inl e, w1) \<Rightarrow> (Inl e, c, w1)
        | (Inr request, w1) \<Rightarrow>
            if status_code request = 200 then
              (case fromstring L (content request) of
                 None \<Rightarrow> (Inl ParseError, c, w1)
               | Some entity_response \<Rightarrow>
                  (let filename = find_element entity_response (xip_tag ''Filename'');
                       filesize = find_element entity_response (xip_tag ''FileSize'');
                       fixity_values = findall entity_response (xip_tag ''Fixity'');
                       content' = find_element entity_response
                                    (entity_tag ''Content'')
                   in case for_each fixity_entry fixity_values of
                        Inl e \<Rightarrow> (Inl e, c, w1)
                      | Inr pairs \<Rightarrow>
                          (Bitstream L (text_or_none filename)
                             (case filesize of None \<Rightarrow> None | Some e \<Rightarrow> el_text e)
                             (PDict (fold (\<lambda>(k, v) d. dict_set d k v) pairs []))
                             (text_or_none content'),
                           c, w1)))
            else if status_code request = 401 then
              (case dunder_token L c w1 of
                 (Inl e, c1, w2) \<Rightarrow> (Inl e, c1, w2)
               | (Inr t, c1, w2) \<Rightarrow> bitstream n L url' (c1\<lparr>token := t\<rparr>) w2)
            else (Inl (RuntimeError_status (status_code request) ''bitstream failed''), c, w1)))"

text \<open>
  \<^verbatim>\<open>generation(url)\<close>: one request for the generation, then \<^verbatim>\<open>self.bitstream\<close> for each
  Bitstream element of the answer. \<^verbatim>\<open>bool(s)\<close> of a string is whether it is non-empty.
\<close>

primrec generation ::
  "nat \<Rightarrow> lib \<Rightarrow> string option \<Rightarrow> client \<Rightarrow> world \<Rightarrow> (error + pyval) \<times> client \<times> world" where
  "generation 0 L url' c w = (Inl RecursionError, c, w)"
| "generation (Suc n) L url' c w =
     (case url' of
        None \<Rightarrow> (Inl MissingSchema, c, w)
      | Some u \<Rightarrow>
       (case send (get_request u (token c)) w of
          (Inl e, w1) \<Rightarrow> (Inl e, c, w1)
        | (Inr request, w1) \<Rightarrow>
            if status_code request = 200 then
              (case fromstring L (content request) of
                 None \<Rightarrow> (Inl ParseError, c, w1)
               | Some entity_response \<Rightarrow>
                  (let ge = find_element entity_response (xip_tag ''Generation'');
                       format_group = find_element entity_response
                                        (xip_tag ''FormatGroup'');
                       effective_date = find_element entity_response
                                          (xip_tag ''EffectiveDate'');
                       bitstreams = findall entity_response
                                      (entity_tag ''Bitstream'')
                   in case for_each_call (\<lambda>bit. bitstream n L (el_text bit)) bitstreams c w1 of
                        (Inl e, c1, w2) \<Rightarrow> (Inl e, c1, w2)
                      | (Inr bitstream_list, c1, w2) \<Rightarrow>
                         (case ge of
                            None \<Rightarrow> (Inl (AttributeError ''attrib''), c1, w2)
                          | Some g \<Rightarrow>
                             (case attrib g ''original'' of
                                Inl e \<Rightarrow> (Inl e, c1, w2)
                              | Inr original \<Rightarrow>
                                 (case attrib g ''active'' of
                                    Inl e \<Rightarrow> (Inl e, c1, w2)
                                  | Inr active \<Rightarrow>
                                      (Inr (Generation (original \<noteq> []) (active \<noteq> [])
                                              (text_or_none format_group)
                                              (text_or_none effective_date)
                                              (PList bitstream_list)), c1, w2))))))
            else if status_code request = 401 then
              (case dunder_token L c w1 of
                 (Inl e, c1, w2) \<Rightarrow> (Inl e, c1, w2)
               | (Inr t, c1, w2) \<Rightarrow> generation n L url' (c1\<lparr>token := t\<rparr>) w2)
            else (Inl (RuntimeError_status (status_code request) ''generation failed''), c, w1)))"

text \<open>
  \<^verbatim>\<open>generations(content_object)\<close>: one request for the list, then \<^verbatim>\<open>self.generation\<close>
  for each Generation element listed.
\<close>

definition generation_of ::
  "nat \<Rightarrow> lib \<Rightarrow> pyval \<Rightarrow> element \<Rightarrow> client \<Rightarrow> world \<Rightarrow> (error + pyval) \<times> client \<times> world" where
  "generation_of n L content_object' g c w =
     (case generation n L (el_text g) c w of
        (Inl e, c1, w1) \<Rightarrow> (Inl e, c1, w1)
      | (Inr gen, c1, w1) \<Rightarrow> (Inr (setattr gen ''content_object'' content_object'), c1, w1))"

primrec generations ::
  "nat \<Rightarrow> lib \<Rightarrow> client \<Rightarrow> pyval \<Rightarrow> world \<Rightarrow> (error + pyval) \<times> client \<times> world" where
  "generations 0 L c content_object' w = (Inl RecursionError, c, w)"
| "generations (Suc n) L c content_object' w =
     (case getattr content_object' ''reference'' of
        Inl e \<Rightarrow> (Inl e, c, w)
      | Inr reference \<Rightarrow>
       (case send (get_request (''https://'' @ server c @ ''/api/entity/'' @ CO_PATH @ ''/''
                                 @ fstr reference @ ''/generations'') (token c)) w of
          (Inl e, w1) \<Rightarrow> (Inl e, c, w1)
        | (Inr request, w1) \<Rightarrow>
            if status_code request = 200 then
              (case fromstring L (content request) of
                 None \<Rightarrow> (Inl ParseError, c, w1)
               | Some entity_response \<Rightarrow>
                  (case for_each_call (generation_of n L content_object')
                          (findall entity_response
                             (entity_tag ''Generation'')) c w1 of
                     (Inl e, c1, w2) \<Rightarrow> (Inl e, c1, w2)
                   | (Inr result, c1, w2) \<Rightarrow> (Inr (PList result), c1, w2)))
            else if status_code request = 401 then
              (case dunder_token L c w1 of
                 (Inl e, c1, w2) \<Rightarrow> (Inl e, c1, w2)
               | (Inr t, c1, w2) \<Rightarrow> generations n L (c1\<lparr>token := t\<rparr>) content_object' w2)
            else (Inl (RuntimeError_status (status_code request) ''generations failed''), c, w1)))"

subsection \<open>\<^verbatim>\<open>security_tags_base\<close> (common.py)\<close>

text \<open>
  The version test reads the three version attributes, with Python's short-circuit
  \<^verbatim>\<open>and\<close>. The retry after 401 calls \<^verbatim>\<open>self.security_tags_base()\<close>, that is with
  \<^verbatim>\<open>with_permissions\<close> at its default.
\<close>

definition version_too_old :: "client \<Rightarrow> error + bool" where
  "version_too_old c =
     (case major_version c of
        None \<Rightarrow> Inl (AttributeError ''major_version'')
      | Some major \<Rightarrow>
          if \<not> major < 7 then Inr False
          else (case minor_version c of
                  None \<Rightarrow> Inl (AttributeError ''minor_version'')
                | Some minor \<Rightarrow>
                    if \<not> minor < 4 then Inr False
                    else (case patch_version c of
                            None \<Rightarrow> Inl (AttributeError ''patch_version'')
                          | Some patch \<Rightarrow> Inr (patch < 1))))"

definition security_tag_entry :: "string \<Rightarrow> bool \<Rightarrow> element \<Rightarrow> error + pyval \<times> pyval" where
  "security_tag_entry sec with_permissions tg =
     (let permissions = map (\<lambda>p. opt_str (el_text p)) (findall tg (''{'' @ sec @ ''}Permission''))
      in case attrib tg ''name'' of
           Inl e \<Rightarrow> Inl e
         | Inr nm \<Rightarrow> Inr (PStr nm, if with_permissions then PList permissions else PStr nm))"

primrec security_tags_base ::
  "nat \<Rightarrow> lib \<Rightarrow> client \<Rightarrow> bool \<Rightarrow> world \<Rightarrow> (error + pyval) \<times> client \<times> world" where
  "security_tags_base 0 L c with_permissions w = (Inl RecursionError, c, w)"
| "security_tags_base (Suc n) L c with_permissions w =
     (case version_too_old c of
        Inl e \<Rightarrow> (Inl e, c, w)
      | Inr True \<Rightarrow>
          (Inl (RuntimeError security_tags_unavailable),
           c, w)
      | Inr False \<Rightarrow>
       (case send \<lparr>verb = GET, url = ''https://'' @ server c @ ''/api/security/tags'',
                   headers = [(HEADER_TOKEN, token c),
                              (''Content-Type'', PStr ''application/xml;charset=UTF-8'')],
                   params = [], body = NoData\<rparr> w of
          (Inl e, w1) \<Rightarrow> (Inl e, c, w1)
        | (Inr request, w1) \<Rightarrow>
            if status_code request = 200 then
              (case fromstring L (content request) of
                 None \<Rightarrow> (Inl ParseError, c, w1)
               | Some entity_response \<Rightarrow>
                  (case sec_ns c of
                     None \<Rightarrow> (Inl (AttributeError ''sec_ns''), c, w1)
                   | Some sec \<Rightarrow>
                      (case for_each (security_tag_entry sec with_permissions)
                              (findall entity_response (''{'' @ sec @ ''}Tag'')) of
                         Inl e \<Rightarrow> (Inl e, c, w1)
                       | Inr pairs \<Rightarrow>
                           (Inr (PDict (fold (\<lambda>(k, v) d. dict_set d k v) pairs [])), c, w1))))
            else if status_code request = 401 then
              (case dunder_token L c w1 of
                 (Inl e, c1, w2) \<Rightarrow> (Inl e, c1, w2)
               | (Inr t, c1, w2) \<Rightarrow> security_tags_base n L (c1\<lparr>token := t\<rparr>) False w2)
            else (Inl (RuntimeError_status (status_code request) ''security_tags failed''), c, w1)))"

subsection \<open>The common shape of the retrying methods, and what a call may change\<close>

text \<open>
  Every method above has one shape: it may return early, before any request (\<open>rq\<close>
  gives the early result or the request); it sends the request; on 401 it assigns a fresh
  token and calls itself (\<open>k'\<close> handles the answers of the calls after the first, which
  differs from \<open>k\<close> only where the retry changes an argument); any other answer goes to
  the handler \<open>k\<close>. The properties of the methods are proved once, for this shape;
  each method is shown equal to an instance of it.
\<close>

primrec retrying ::
  "nat \<Rightarrow> (client \<Rightarrow> (error + pyval) + request)
     \<Rightarrow> (nat \<Rightarrow> client \<Rightarrow> response \<Rightarrow> world \<Rightarrow> (error + pyval) \<times> client \<times> world)
     \<Rightarrow> (nat \<Rightarrow> client \<Rightarrow> response \<Rightarrow> world \<Rightarrow> (error + pyval) \<times> client \<times> world)
     \<Rightarrow> lib \<Rightarrow> client \<Rightarrow> world \<Rightarrow> (error + pyval) \<times> client \<times> world" where
  "retrying 0 rq k k' L c w = (Inl RecursionError, c, w)"
| "retrying (Suc n) rq k k' L c w =
     (case rq c of
        Inl early \<Rightarrow> (early, c, w)
      | Inr q \<Rightarrow>
         (case send q w of
            (Inl e, w1) \<Rightarrow> (Inl e, c, w1)
          | (Inr r, w1) \<Rightarrow>
              if status_code r = 401 then
                (case dunder_token L c w1 of
                   (Inl e, c1, w2) \<Rightarrow> (Inl e, c1, w2)
                 | (Inr t, c1, w2) \<Rightarrow> retrying n rq k' k' L (c1\<lparr>token := t\<rparr>) w2)
              else k n c r w1))"

text \<open>
  \<open>session_frame c c'\<close>: the client \<open>c'\<close> differs from \<open>c\<close> at most in the token and
  the tenant, and in the tenant only when \<open>c\<close> had none.
\<close>

definition session_frame :: "client \<Rightarrow> client \<Rightarrow> bool" where
  "session_frame c c' =
     (c' = c\<lparr>token := token c', tenant := tenant c'\<rparr>
      \<and> (tenant c = PNone \<or> tenant c' = tenant c))"

text \<open>The client with token and tenant blanked: what a call must leave as it was.\<close>

definition session_rest :: "client \<Rightarrow> client" where
  "session_rest c = c\<lparr>token := PNone, tenant := PNone\<rparr>"

text \<open>The number of requests with a given verb in a log.\<close>

definition count_verb :: "http_verb \<Rightarrow> request list \<Rightarrow> nat" where
  "count_verb v log = length (filter (\<lambda>rq. verb rq = v) log)"

text \<open>
  What each method does with an answer other than 401, in the source's order of tests,
  and what it does before its request: the instances of the shape.
\<close>

definition entity_answer ::
  "lib \<Rightarrow> (pyval \<Rightarrow> pyval \<Rightarrow> pyval \<Rightarrow> pyval \<Rightarrow> pyval \<Rightarrow> pyval \<Rightarrow> pyval) \<Rightarrow> string \<Rightarrow> string \<Rightarrow> client
     \<Rightarrow> response \<Rightarrow> error + pyval" where
  "entity_answer L mk name reference c request =
     (if status_code request = 200 then
        (case call_entity_from_string L c (content request) of
           Inl e \<Rightarrow> Inl e
         | Inr entity \<Rightarrow>
             Inr (mk (item entity ''reference'') (item entity ''title'')
                    (item entity ''description'') (item entity ''security_tag'')
                    (item entity ''parent'') (item entity ''metadata'')))
      else if status_code request = 404 then Inl (RuntimeError_ref reference reference_not_found)
      else Inl (RuntimeError_status (status_code request) (name @ '' failed for '' @ reference)))"

definition metadata_answer :: "lib \<Rightarrow> string \<Rightarrow> response \<Rightarrow> error + pyval" where
  "metadata_answer L uri request =
     (if status_code request = 200 then
        (case fromstring L (content request) of
           None \<Rightarrow> Inl ParseError
         | Some entity_response \<Rightarrow>
            (case find_element entity_response (xip_tag ''Content'') of
               None \<Rightarrow> Inl (TypeError ''NoneType object is not subscriptable'')
             | Some content' \<Rightarrow>
                (case el_children content' of
                   [] \<Rightarrow> Inl IndexError
                 | ch # chs \<Rightarrow> Inr (PStr (tostring L ch)))))
      else Inl (RuntimeError_status (status_code request) (''metadata failed for '' @ uri)))"

definition children_request :: "string option \<Rightarrow> int \<Rightarrow> string option \<Rightarrow> client \<Rightarrow> request" where
  "children_request folder_reference maximum next_page c =
     get_request
       (case next_page of
          None \<Rightarrow>
            (case folder_reference of
               None \<Rightarrow> ''https://'' @ server c @ ''/api/entity/root/children?start=''
                         @ str_int 0 @ ''&max='' @ str_int maximum
             | Some fr \<Rightarrow> ''https://'' @ server c @ ''/api/entity/structural-objects/'' @ fr
                         @ ''/children?start='' @ str_int 0 @ ''&max='' @ str_int maximum)
        | Some np \<Rightarrow> np)
       (token c)"

definition children_answer :: "lib \<Rightarrow> string option \<Rightarrow> response \<Rightarrow> error + pyval" where
  "children_answer L folder_reference request =
     (if status_code request = 200 then
        (case fromstring L (content request) of
           None \<Rightarrow> Inl ParseError
         | Some entity_response \<Rightarrow>
            (let childs = findall entity_response (entity_tag ''Child'');
                 next_url = find_element entity_response (entity_tag ''Next'');
                 total_hits = find_element entity_response (entity_tag ''TotalResults'')
             in case for_each (child_entity (opt_str folder_reference)) childs of
                  Inl e \<Rightarrow> Inl e
                | Inr result \<Rightarrow>
                   (let has_more = (next_url \<noteq> None);
                        url' = (case next_url of None \<Rightarrow> PNone | Some e \<Rightarrow> opt_str (el_text e))
                    in case text_of total_hits of
                         Inl e \<Rightarrow> Inl e
                       | Inr tt \<Rightarrow> PagedSet L (PList result) has_more tt url')))
      else Inl (RuntimeError_status (status_code request) ''children failed''))"

definition entity_request :: "pyval \<Rightarrow> string \<Rightarrow> client \<Rightarrow> (error + pyval) + request" where
  "entity_request entity ending c =
     (case getattr entity ''_path'' of
        Inl e \<Rightarrow> Inl (Inl e)
      | Inr path' \<Rightarrow>
         (case getattr entity ''reference'' of
            Inl e \<Rightarrow> Inl (Inl e)
          | Inr reference \<Rightarrow>
              Inr (get_request (''https://'' @ server c @ ''/api/entity/'' @ fstr path' @ ''/''
                                 @ fstr reference @ ending) (token c))))"

definition identifiers_answer :: "lib \<Rightarrow> response \<Rightarrow> error + pyval" where
  "identifiers_answer L request =
     (if status_code request = 200 then
        (case fromstring L (content request) of
           None \<Rightarrow> Inl ParseError
         | Some entity_response \<Rightarrow>
             Inr (PList (remdups (map identifier_pair
                    (findall entity_response (xip_tag ''Identifier''))))))
      else Inl (RuntimeError_status (status_code request) ''identifiers_for_entity failed''))"

definition representations_answer :: "lib \<Rightarrow> pyval \<Rightarrow> response \<Rightarrow> error + pyval" where
  "representations_answer L asset' request =
     (if status_code request = 200 then
        (case fromstring L (content request) of
           None \<Rightarrow> Inl ParseError
         | Some entity_response \<Rightarrow>
            (case for_each (representation_of asset')
                    (findall entity_response (entity_tag ''Representation'')) of
               Inl e \<Rightarrow> Inl e
             | Inr result \<Rightarrow> Inr (PList result)))
      else Inl (RuntimeError_status (status_code request) ''representations failed''))"

definition url_request :: "string option \<Rightarrow> client \<Rightarrow> (error + pyval) + request" where
  "url_request url' c =
     (case url' of None \<Rightarrow> Inl (Inl MissingSchema) | Some u \<Rightarrow> Inr (get_request u (token c)))"

definition bitstream_answer :: "lib \<Rightarrow> response \<Rightarrow> error + pyval" where
  "bitstream_answer L request =
     (if status_code request = 200 then
        (case fromstring L (content request) of
           None \<Rightarrow> Inl ParseError
         | Some entity_response \<Rightarrow>
            (let filename = find_element entity_response (xip_tag ''Filename'');
                 filesize = find_element entity_response (xip_tag ''FileSize'');
                 fixity_values = findall entity_response (xip_tag ''Fixity'');
                 content' = find_element entity_response (entity_tag ''Content'')
             in case for_each fixity_entry fixity_values of
                  Inl e \<Rightarrow> Inl e
                | Inr pairs \<Rightarrow>
                    Bitstream L (text_or_none filename)
                      (case filesize of None \<Rightarrow> None | Some e \<Rightarrow> el_text e)
                      (PDict (fold (\<lambda>(k, v) d. dict_set d k v) pairs []))
                      (text_or_none content')))
      else Inl (RuntimeError_status (status_code request) ''bitstream failed''))"

definition generation_answer ::
  "nat \<Rightarrow> lib \<Rightarrow> client \<Rightarrow> response \<Rightarrow> world \<Rightarrow> (error + pyval) \<times> client \<times> world" where
  "generation_answer n L c request w1 =
     (if status_code request = 200 then
        (case fromstring L (content request) of
           None \<Rightarrow> (Inl ParseError, c, w1)
         | Some entity_response \<Rightarrow>
            (let ge = find_element entity_response (xip_tag ''Generation'');
                 format_group = find_element entity_response (xip_tag ''FormatGroup'');
                 effective_date = find_element entity_response (xip_tag ''EffectiveDate'');
                 bitstreams = findall entity_response (entity_tag ''Bitstream'')
             in case for_each_call (\<lambda>bit. bitstream n L (el_text bit)) bitstreams c w1 of
                  (Inl e, c1, w2) \<Rightarrow> (Inl e, c1, w2)
                | (Inr bitstream_list, c1, w2) \<Rightarrow>
                   (case ge of
                      None \<Rightarrow> (Inl (AttributeError ''attrib''), c1, w2)
                    | Some g \<Rightarrow>
                       (case attrib g ''original'' of
                          Inl e \<Rightarrow> (Inl e, c1, w2)
                        | Inr original \<Rightarrow>
                           (case attrib g ''active'' of
                              Inl e \<Rightarrow> (Inl e, c1, w2)
                            | Inr active \<Rightarrow>
                                (Inr (Generation (original \<noteq> []) (active \<noteq> [])
                                        (text_or_none format_group)
                                        (text_or_none effective_date)
                                        (PList bitstream_list)), c1, w2))))))
      else (Inl (RuntimeError_status (status_code request) ''generation failed''), c, w1))"

definition generations_request :: "pyval \<Rightarrow> client \<Rightarrow> (error + pyval) + request" where
  "generations_request content_object' c =
     (case getattr content_object' ''reference'' of
        Inl e \<Rightarrow> Inl (Inl e)
      | Inr reference \<Rightarrow>
          Inr (get_request (''https://'' @ server c @ ''/api/entity/'' @ CO_PATH @ ''/''
                             @ fstr reference @ ''/generations'') (token c)))"

text \<open>The Generation elements a listing answer names: none unless it is a 200 that parses.\<close>

definition listed_generations :: "lib \<Rightarrow> response \<Rightarrow> element list" where
  "listed_generations L request =
     (if status_code request = 200 then
        (case fromstring L (content request) of
           None \<Rightarrow> []
         | Some entity_response \<Rightarrow> findall entity_response (entity_tag ''Generation''))
      else [])"

definition generations_answer ::
  "nat \<Rightarrow> lib \<Rightarrow> pyval \<Rightarrow> client \<Rightarrow> response \<Rightarrow> world \<Rightarrow> (error + pyval) \<times> client \<times> world" where
  "generations_answer n L content_object' c request w1 =
     (if status_code request = 200 then
        (case fromstring L (content request) of
           None \<Rightarrow> (Inl ParseError, c, w1)
         | Some entity_response \<Rightarrow>
            (case for_each_call (generation_of n L content_object')
                    (findall entity_response (entity_tag ''Generation'')) c w1 of
               (Inl e, c1, w2) \<Rightarrow> (Inl e, c1, w2)
             | (Inr result, c1, w2) \<Rightarrow> (Inr (PList result), c1, w2)))
      else (Inl (RuntimeError_status (status_code request) ''generations failed''), c, w1))"

definition security_tags_request :: "client \<Rightarrow> (error + pyval) + request" where
  "security_tags_request c =
     (case version_too_old c of
        Inl e \<Rightarrow> Inl (Inl e)
      | Inr True \<Rightarrow> Inl (Inl (RuntimeError security_tags_unavailable))
      | Inr False \<Rightarrow>
          Inr \<lparr>verb = GET, url = ''https://'' @ server c @ ''/api/security/tags'',
               headers = [(HEADER_TOKEN, token c),
                          (''Content-Type'', PStr ''application/xml;charset=UTF-8'')],
               params = [], body = NoData\<rparr>)"

definition security_tags_answer :: "lib \<Rightarrow> bool \<Rightarrow> client \<Rightarrow> response \<Rightarrow> error + pyval" where
  "security_tags_answer L with_permissions c request =
     (if status_code request = 200 then
        (case fromstring L (content request) of
           None \<Rightarrow> Inl ParseError
         | Some entity_response \<Rightarrow>
            (case sec_ns c of
               None \<Rightarrow> Inl (AttributeError ''sec_ns'')
             | Some sec \<Rightarrow>
                (case for_each (security_tag_entry sec with_permissions)
                        (findall entity_response (''{'' @ sec @ ''}Tag'')) of
                   Inl e \<Rightarrow> Inl e
                 | Inr pairs \<Rightarrow> Inr (PDict (fold (\<lambda>(k, v) d. dict_set d k v) pairs [])))))
      else Inl (RuntimeError_status (status_code request) ''security_tags failed''))"

text \<open>A handler that calls nothing: it leaves client and world as they are.\<close>

definition pure_answer ::
  "(client \<Rightarrow> response \<Rightarrow> error + pyval)
     \<Rightarrow> nat \<Rightarrow> client \<Rightarrow> response \<Rightarrow> world \<Rightarrow> (error + pyval) \<times> client \<times> world" where
  "pure_answer f n c r w = (f c r, c, w)"

text \<open>The request \<^verbatim>\<open>__token__\<close> sends, and the client it leaves after a login that names the tenant \<open>tn\<close>.\<close>

definition token_request :: "lib \<Rightarrow> client \<Rightarrow> world \<Rightarrow> request" where
  "token_request L c w =
     (if \<not> shared_secret c then
        \<lparr>verb = POST, url = ''https://'' @ server c @ ''/api/accesstoken/login'',
         headers = [], params = [],
         body = Form (if tenant c = PNone
                      then [(''username'', PStr (username c)), (''password'', PStr (password c)),
                            (''includeUserDetails'', PStr ''true'')]
                      else [(''username'', PStr (username c)), (''password'', PStr (password c)),
                            (''tenant'', tenant c)])\<rparr>
      else
        \<lparr>verb = POST, url = ''https://'' @ server c @ ''/'' @ ''api/accesstoken/acquire-external'',
         headers = [], params = [],
         body = Form [(''username'', PStr (username c)), (''tenant'', tenant c),
                      (''timestamp'', PInt (clock w)),
                      (''hash'', PStr (sha1_hexdigest L
                         (''preservica-external-auth'' @ str_int (clock w)
                          @ username c @ password c)))]\<rparr>)"

definition token_client :: "client \<Rightarrow> pyval \<Rightarrow> client" where
  "token_client c tn = (if \<not> shared_secret c \<and> tenant c = PNone then c\<lparr>tenant := tn\<rparr> else c)"

section \<open>Properties\<close>

subsection \<open>File-name sanitising\<close>

lemma split_on_none: "\<forall>c\<in>set s. \<not> sep c \<Longrightarrow> split_on sep s = [s]"
  by (induction s) auto

lemma split_on_first_sep:
  "\<forall>c\<in>set p. \<not> sep c \<Longrightarrow> sep d \<Longrightarrow> split_on sep (p @ d # rest) = p # split_on sep rest"
  by (induction p) auto

lemma rstrip_keeps: "s \<noteq> [] \<Longrightarrow> last s \<notin> set chars \<Longrightarrow> rstrip chars s = s"
  by (cases s rule: rev_cases) (auto simp: rstrip_def)

lemma dropWhile_keeps: "xs \<noteq> [] \<Longrightarrow> \<not> P (hd xs) \<Longrightarrow> dropWhile P xs = xs"
  by (cases xs) auto

lemma strip_keeps:
  "s \<noteq> [] \<Longrightarrow> \<not> py_isspace (hd s) \<Longrightarrow> \<not> py_isspace (last s) \<Longrightarrow> strip s = s"
  by (simp add: strip_def dropWhile_keeps hd_rev)

lemma ustr_simps:
  "ustr ''a.'' = [97, 46]" "ustr ''.'' = [46]" "ustr ''. '' = [46, 32]" "ustr ''__'' = [95, 95]"
  by (simp_all add: ustr_def)

lemma set_blacklist: "set blacklist = {92, 47, 58, 42, 63, 34, 60, 62, 124, 0}"
  by (auto simp: blacklist_def ustr_def)

lemma reserved_short: "s \<in> set reserved \<Longrightarrow> length s \<le> 4"
  by (auto simp: reserved_def ustr_def)

text \<open>The result is never empty: both paths end with the replacement by two underscores.\<close>

lemma shorten_nonempty: "shorten f \<noteq> []"
  by (simp add: shorten_def Let_def ustr_simps)

lemma sanitize_nonempty: "sanitize nfkd f \<noteq> []"
  by (simp add: sanitize_def Let_def ustr_simps shorten_nonempty)

text \<open>
  C8 (the length bound fails). The docstring of \<^verbatim>\<open>sanitize\<close> promises a name within the
  Windows length limit, and the claim says at most 255 characters. For an extension longer
  than 254 characters the code keeps \<^verbatim>\<open>ext[254:]\<close>, the part of the extension after its
  first 254 characters, where the first 254 were meant. For the name made of \<open>a\<close>, a dot
  and \<open>n\<close> letters \<open>b\<close>, with \<open>n\<close> at least 509, on which NFKD normalisation changes
  nothing, the result is \<open>n - 253\<close> letters \<open>b\<close>: longer than 255.
\<close>

theorem sanitize_long_extension:
  assumes n: "509 \<le> n"
    and nf: "nfkd (ustr ''a.'' @ replicate n 98) = ustr ''a.'' @ replicate n 98"
  shows "sanitize nfkd (ustr ''a.'' @ replicate n 98) = replicate (n - 253) 98
         \<and> 255 < length (sanitize nfkd (ustr ''a.'' @ replicate n 98))"
proof -
  define s where "s = ustr ''a.'' @ replicate n 98"
  define e where "e = replicate (n - 253) (98::nat)"
  have s: "s = 97 # 46 # replicate n 98" by (simp add: s_def ustr_simps)
  have n0: "n \<noteq> 0" using n by auto
  have f1: "filter (\<lambda>c. c \<notin> set blacklist) s = s" by (simp add: s set_blacklist)
  have f2: "filter (\<lambda>c. 31 < c) s = s" by (simp add: s)
  have nf': "nfkd s = s" using nf by (simp add: s_def)
  have r: "rstrip (ustr ''. '') s = s"
    using n0 by (intro rstrip_keeps) (simp_all add: s ustr_simps)
  have st: "strip s = s"
    using n0 by (intro strip_keeps) (simp_all add: s py_isspace_def)
  have nd: "list_all (\<lambda>x. x = 46) s = False" by (simp add: s)
  have nr: "(s \<in> set reserved) = False" using reserved_short[of s] n by (auto simp: s)
  have l0: "(length s = 0) = False" by (simp add: s)
  have len: "(255 < length s) = True" using n by (simp add: s)
  have san: "sanitize nfkd s = shorten s"
    by (simp only: sanitize_def Let_def f1 f2 nf' r st nd nr l0 len if_True if_False)
  have sp1: "last (split_on (\<lambda>c. c = 47 \<or> c = 92) s) = s"
    using split_on_none[of s "\<lambda>c. c = 47 \<or> c = 92"] by (simp add: s)
  have sp2: "split_on (\<lambda>c. c = 46) s = [[97], replicate n 98]"
    using split_on_first_sep[of "[97]" "\<lambda>c. c = 46" 46 "replicate n 98"]
    by (simp add: s split_on_none)
  have p1: "(1 < length [[97::nat], replicate n 98]) = True" by simp
  have ext: "ustr ''.'' @ last [[97], replicate n 98] = 46 # replicate n 98"
    by (simp add: ustr_simps)
  have fn1: "slice_to s (- int (length (46 # replicate n (98::nat)))) = [97]"
    by (simp add: slice_to_def s)
  have fn2: "([97::nat] = []) = False" by simp
  have e1: "(254 < length (46 # replicate n (98::nat))) = True" using n by simp
  have e2: "slice_from (46 # replicate n (98::nat)) 254 = e"
    using n by (simp add: slice_from_def e_def drop_Cons')
  have fn3: "slice_to [97::nat] (255 - int (length e)) = []"
    using n by (simp add: slice_to_def e_def)
  have fn5: "rstrip (ustr ''. '') ([] @ e) = e"
    using n by (simp add: rstrip_keeps e_def ustr_simps)
  have l5: "(length e = 0) = False" using n by (simp add: e_def)
  have sh: "shorten s = e"
    by (simp only: shorten_def Let_def sp1 sp2 p1 ext fn1 fn2 e1 e2 fn3 fn5 l5 if_True if_False)
  have "sanitize nfkd s = e" using san sh by simp
  then show ?thesis using n by (simp add: s_def e_def)
qed

theorem sanitize_long_extension_witness:
  "sanitize (\<lambda>s. s) (ustr ''a.'' @ replicate 509 98) = replicate 256 98
   \<and> 255 < length (sanitize (\<lambda>s. s) (ustr ''a.'' @ replicate 509 98))"
  using sanitize_long_extension [of 509 "\<lambda>s. s"] by simp

subsection \<open>Token acquisition\<close>

text \<open>
  C3 as stated fails. The claim says that the password login returns the \<open>token\<close> field
  of the JSON response on HTTP 200. When the client has no tenant, the code first reads the
  \<open>tenant\<close> field of the response and stores it; for a 200 response that carries a token
  but no tenant this lookup raises KeyError and no token is returned.
\<close>

theorem dunder_token_counterexample:
  "fst (dunder_token example_lib example_client (example_world [reply 200 ''J1'']))
     = Inl (KeyError ''tenant'')"
  by (simp add: dunder_token_def example_lib_def example_client_def example_world_def
      reply_def send_def json_field_def Let_def)

text \<open>
  C3 as amended: token acquisition is by password or by shared secret. When a response
  arrives (\<open>r\<close>, the head of the script), \<^verbatim>\<open>__token__\<close> has issued exactly one request.
  With \<open>shared_secret\<close> false it is a POST of username and password, with the tenant when
  one is known and with \<open>includeUserDetails\<close> otherwise, to
  \<^verbatim>\<open>/api/accesstoken/login\<close>; any status but 200 is a RuntimeError; on 200 the result is
  the \<open>token\<close> field of the JSON response, where without a known tenant the response must
  also carry a \<open>tenant\<close> field, which becomes the client's tenant. With
  \<open>shared_secret\<close> true it is a POST to \<^verbatim>\<open>/api/accesstoken/acquire-external\<close> whose hash
  is the SHA1 hex digest of \<open>preservica-external-auth\<close> followed by the integer timestamp,
  the username and the password; 200 gives the \<open>token\<close> field and any other status a
  RuntimeError.
\<close>

theorem dunder_token_acquires:
  assumes sc: "script w = Inr r # rest"
  shows "(\<not> shared_secret c \<longrightarrow>
           snd (snd (dunder_token L c w)) =
             w\<lparr>script := rest,
               sent := sent w @
                 [\<lparr>verb = POST, url = ''https://'' @ server c @ ''/api/accesstoken/login'',
                   headers = [], params = [],
                   body = Form (if tenant c = PNone
                                then [(''username'', PStr (username c)),
                                      (''password'', PStr (password c)),
                                      (''includeUserDetails'', PStr ''true'')]
                                else [(''username'', PStr (username c)),
                                      (''password'', PStr (password c)),
                                      (''tenant'', tenant c)])\<rparr>]\<rparr>
           \<and> (status_code r \<noteq> 200 \<longrightarrow>
                fst (dunder_token L c w) = Inl (RuntimeError_status (status_code r)
                  password_login_failed))
           \<and> (status_code r = 200 \<longrightarrow> tenant c \<noteq> PNone \<longrightarrow>
                fst (dunder_token L c w) = json_field L (content r) ''token''
                \<and> fst (snd (dunder_token L c w)) = c)
           \<and> (status_code r = 200 \<longrightarrow> tenant c = PNone \<longrightarrow>
                (\<forall>tn. json_field L (content r) ''tenant'' = Inr tn \<longrightarrow>
                   fst (dunder_token L c w) = json_field L (content r) ''token''
                   \<and> fst (snd (dunder_token L c w)) = c\<lparr>tenant := tn\<rparr>)))
       \<and> (shared_secret c \<longrightarrow>
           snd (snd (dunder_token L c w)) =
             w\<lparr>script := rest,
               sent := sent w @
                 [\<lparr>verb = POST,
                   url = ''https://'' @ server c @ ''/api/accesstoken/acquire-external'',
                   headers = [], params = [],
                   body = Form [(''username'', PStr (username c)), (''tenant'', tenant c),
                                (''timestamp'', PInt (clock w)),
                                (''hash'', PStr (sha1_hexdigest L
                                   (''preservica-external-auth'' @ str_int (clock w)
                                    @ username c @ password c)))]\<rparr>]\<rparr>
           \<and> (status_code r \<noteq> 200 \<longrightarrow>
                fst (dunder_token L c w) = Inl (RuntimeError_status (status_code r)
                  shared_secret_login_failed))
           \<and> (status_code r = 200 \<longrightarrow>
                fst (dunder_token L c w) = json_field L (content r) ''token''
                \<and> fst (snd (dunder_token L c w)) = c))"
  using sc by (auto simp: dunder_token_def send_def Let_def split: sum.splits)

theorem dunder_token_acquires_witness:
  "fst (dunder_token example_lib example_client (example_world [reply 200 ''J2''])) = Inr (PStr ''T2'')
   \<and> tenant (fst (snd (dunder_token example_lib example_client (example_world [reply 200 ''J2''])))) = PStr ''TEN''
   \<and> fst (dunder_token example_lib (example_client\<lparr>shared_secret := True\<rparr>)
            (example_world [reply 200 ''J1''])) = Inr (PStr ''T1'')
   \<and> fst (dunder_token example_lib (example_client\<lparr>tenant := PStr ''TEN''\<rparr>)
            (example_world [reply 403 ''J1'']))
       = Inl (RuntimeError_status 403
           password_login_failed)"
  using dunder_token_acquires [of "example_world [reply 200 ''J2'']"
      "\<lparr>status_code = 200, content = ''J2''\<rparr>" "[]" example_client example_lib]
    dunder_token_acquires [of "example_world [reply 200 ''J1'']"
      "\<lparr>status_code = 200, content = ''J1''\<rparr>" "[]" "example_client\<lparr>shared_secret := True\<rparr>" example_lib]
    dunder_token_acquires [of "example_world [reply 403 ''J1'']"
      "\<lparr>status_code = 403, content = ''J1''\<rparr>" "[]" "example_client\<lparr>tenant := PStr ''TEN''\<rparr>" example_lib]
  by (simp add: example_lib_def example_client_def example_world_def reply_def json_field_def)

subsection \<open>The constructor: version and namespaces\<close>

lemma str_int_digits: "str_int 6 = ''6''" "str_int 5 = ''5''" "str_int 2 = ''2''"
  by (simp_all add: str_int_def)

text \<open>For major version 6 the namespaces are assigned as the claim says.\<close>

lemma dunder_version_namespace_6:
  assumes "major_version c = Some 6" and "minor_version c = Some minor"
  shows "\<exists>c'. dunder_version_namespace c = Inr c'
     \<and> xip_ns c' = Some (if minor < 2 then NS_XIP_V6
                         else NS_XIP_ROOT @ ''v'' @ str_int 6 @ ''.'' @ str_int minor)
     \<and> entity_ns c' = Some (if minor < 2 then NS_ENTITY
                            else NS_ENTITY_ROOT @ ''v'' @ str_int 6 @ ''.'' @ str_int minor)"
  using assms by (simp add: dunder_version_namespace_def)

text \<open>For any other major version nothing is assigned.\<close>

lemma dunder_version_namespace_other:
  assumes "major_version c = Some major" and "major \<noteq> 6"
  shows "dunder_version_namespace c = Inr c"
  using assms by (simp add: dunder_version_namespace_def)

lemma connect_version_6_5:
  "map_sum id xip_ns (fst (connect (Suc 0) example_lib (example_client\<lparr>tenant := PStr ''TEN''\<rparr>)
     (example_world [reply 200 ''J1'', reply 200 ''<CurrentVersion>6.5.0</CurrentVersion>'',
                     reply 200 ''J3''])))
   = Inr (Some ''http://preservica.com/XIP/v6.5'')"
  by (simp add: connect_def dunder_token_def send_def example_lib_def example_client_def
      example_world_def reply_def json_field_def Let_def find_def slice_def
      dunder_version_namespace_def HEADER_TOKEN_def NS_XIP_ROOT_def NS_ENTITY_ROOT_def
      str_int_digits)

text \<open>
  C4 (fails for a server that is not version 6). The server answers the login, then the
  version request with \<open>7.0.0\<close>, then the user-details request. \<^verbatim>\<open>__version_namespace__\<close>
  assigns nothing for major version 7, so \<^verbatim>\<open>xip_ns\<close> is never set and the constructor's
  \<^verbatim>\<open>logger.debug(self.xip_ns)\<close> raises AttributeError: no client is constructed.
\<close>

theorem connect_version_7_fails:
  "fst (connect (Suc 0) example_lib (example_client\<lparr>tenant := PStr ''TEN''\<rparr>)
     (example_world [reply 200 ''J1'', reply 200 ''<CurrentVersion>7.0.0</CurrentVersion>'',
                     reply 200 ''J3'']))
   = Inl (AttributeError ''xip_ns'')"
  by (simp add: connect_def dunder_token_def send_def example_lib_def example_client_def
      example_world_def reply_def json_field_def Let_def find_def slice_def
      dunder_version_namespace_def HEADER_TOKEN_def)

subsection \<open>The shape of the retrying methods\<close>

lemma send_cons:
  "script w = r # rest \<Longrightarrow> send rq w = (r, w\<lparr>script := rest, sent := sent w @ [rq]\<rparr>)"
  by (simp add: send_def)

lemma session_frame_rest:
  "session_frame c c' = (session_rest c' = session_rest c \<and> (tenant c = PNone \<or> tenant c' = tenant c))"
  by (cases c; cases c') (auto simp: session_frame_def session_rest_def)

lemma session_frame_refl: "session_frame c c"
  by (simp add: session_frame_rest)

lemma session_frame_trans: "session_frame a b \<Longrightarrow> session_frame b c \<Longrightarrow> session_frame a c"
  by (auto simp: session_frame_rest)

lemma session_frame_token: "session_frame c c' \<Longrightarrow> session_frame c (c'\<lparr>token := t\<rparr>)"
  by (simp add: session_frame_rest session_rest_def)

lemma session_frame_tenant: "tenant c = PNone \<Longrightarrow> session_frame c (c\<lparr>tenant := tn\<rparr>)"
  by (simp add: session_frame_rest session_rest_def)

lemma session_frame_versions:
  assumes "session_frame c c'"
  shows "major_version c' = major_version c" "minor_version c' = minor_version c"
    "patch_version c' = patch_version c" "server c' = server c" "sec_ns c' = sec_ns c"
proof -
  have e: "session_rest c' = session_rest c" using assms by (simp add: session_frame_rest)
  have "major_version (session_rest c') = major_version (session_rest c)" using e by simp
  then show "major_version c' = major_version c" by (simp add: session_rest_def)
  have "minor_version (session_rest c') = minor_version (session_rest c)" using e by simp
  then show "minor_version c' = minor_version c" by (simp add: session_rest_def)
  have "patch_version (session_rest c') = patch_version (session_rest c)" using e by simp
  then show "patch_version c' = patch_version c" by (simp add: session_rest_def)
  have "server (session_rest c') = server (session_rest c)" using e by simp
  then show "server c' = server c" by (simp add: session_rest_def)
  have "sec_ns (session_rest c') = sec_ns (session_rest c)" using e by simp
  then show "sec_ns c' = sec_ns c" by (simp add: session_rest_def)
qed

lemma dunder_token_client:
  "fst (snd (dunder_token L c w)) = c
   \<or> (tenant c = PNone \<and> (\<exists>tn. fst (snd (dunder_token L c w)) = c\<lparr>tenant := tn\<rparr>))"
proof (cases "shared_secret c")
  case True
  then show ?thesis
    by (simp add: dunder_token_def Let_def split: prod.splits sum.splits)
next
  case False
  then show ?thesis
    by (auto simp add: dunder_token_def Let_def split: prod.splits sum.splits)
qed

lemma dunder_token_frame: "session_frame c (fst (snd (dunder_token L c w)))"
  using dunder_token_client[of L c w]
  by (auto simp: session_frame_refl session_frame_tenant)

text \<open>A login that is answered 200 with a token and a tenant succeeds, by one POST.\<close>

lemma verb_token_request: "verb (token_request L c w) = POST"
  by (simp add: token_request_def)

lemma session_frame_token_client: "session_frame c (token_client c tn)"
  by (simp add: token_client_def session_frame_refl session_frame_tenant)

lemma dunder_token_ok:
  assumes sc: "script w = Inr rt # rest"
    and st: "status_code rt = 200"
    and js: "json_loads L (content rt) = Some (PDict d)"
    and tk: "map_of d (PStr ''token'') = Some t"
    and tn: "map_of d (PStr ''tenant'') = Some tn"
  shows "dunder_token L c w =
           (Inr t, token_client c tn, w\<lparr>script := rest, sent := sent w @ [token_request L c w]\<rparr>)"
proof -
  have jt: "json_field L (content rt) ''token'' = Inr t"
    and jn: "json_field L (content rt) ''tenant'' = Inr tn"
    using js tk tn by (simp_all add: json_field_def)
  show ?thesis
  proof (cases "shared_secret c")
    case True
    then show ?thesis
      using st jt
      by (simp add: dunder_token_def Let_def send_cons[OF sc] token_request_def token_client_def)
  next
    case False
    show ?thesis
    proof (cases "tenant c = PNone")
      case True
      then show ?thesis
        using False st jt jn
        by (simp add: dunder_token_def Let_def send_cons[OF sc] token_request_def token_client_def)
    next
      case nt: False
      then show ?thesis
        using False st jt
        by (simp add: dunder_token_def Let_def send_cons[OF sc] token_request_def token_client_def)
    qed
  qed
qed

lemma retrying_other:
  assumes "rq c = Inr q" and "script w = Inr r # rest" and "status_code r \<noteq> 401"
  shows "retrying (Suc n) rq k k' L c w = k n c r (w\<lparr>script := rest, sent := sent w @ [q]\<rparr>)"
  using assms by (simp add: send_cons)

lemma retrying_early:
  assumes "rq c = Inl early"
  shows "retrying (Suc n) rq k k' L c w = (early, c, w)"
  using assms by simp

lemma retrying_401:
  assumes "rq c = Inr q" and "script w = Inr r # rest" and "status_code r = 401"
  shows "retrying (Suc n) rq k k' L c w =
           (case dunder_token L c (w\<lparr>script := rest, sent := sent w @ [q]\<rparr>) of
              (Inl e, c1, w2) \<Rightarrow> (Inl e, c1, w2)
            | (Inr t, c1, w2) \<Rightarrow> retrying n rq k' k' L (c1\<lparr>token := t\<rparr>) w2)"
  using assms by (simp add: send_cons)

lemma retrying_frame:
  assumes k: "\<And>n c r w. session_frame c (fst (snd (k n c r w)))"
    and k': "\<And>n c r w. session_frame c (fst (snd (k' n c r w)))"
  shows "session_frame c (fst (snd (retrying n rq k k' L c w)))"
  using k
proof (induction n arbitrary: c w k)
  case 0
  show ?case by (simp add: session_frame_refl)
next
  case (Suc n)
  show ?case
  proof (cases "rq c")
    case (Inl early)
    then show ?thesis by (simp add: session_frame_refl)
  next
    case (Inr q)
    obtain o1 w1 where s: "send q w = (o1, w1)" by (cases "send q w")
    show ?thesis
    proof (cases o1)
      case (Inl e)
      then show ?thesis using Inr s by (simp add: session_frame_refl)
    next
      case r: (Inr r)
      show ?thesis
      proof (cases "status_code r = 401")
        case False
        then show ?thesis using Inr s r Suc.prems by simp
      next
        case True
        obtain o2 c1 w2 where t: "dunder_token L c w1 = (o2, c1, w2)"
          by (cases "dunder_token L c w1")
        have f1: "session_frame c c1" using dunder_token_frame[of c L w1] t by simp
        show ?thesis
        proof (cases o2)
          case (Inl e)
          then show ?thesis using Inr s r True t f1 by simp
        next
          case (Inr tk)
          have "session_frame (c1\<lparr>token := tk\<rparr>)
                  (fst (snd (retrying n rq k' k' L (c1\<lparr>token := tk\<rparr>) w2)))"
            by (rule Suc.IH) (rule k')
          moreover have "session_frame c (c1\<lparr>token := tk\<rparr>)"
            using f1 by (rule session_frame_token)
          ultimately have "session_frame c
                  (fst (snd (retrying n rq k' k' L (c1\<lparr>token := tk\<rparr>) w2)))"
            by (rule session_frame_trans[rotated])
          then show ?thesis
            using \<open>rq c = Inr q\<close> s r True t Inr by simp
        qed
      qed
    qed
  qed
qed

lemma count_verb_append: "count_verb v (xs @ ys) = count_verb v xs + count_verb v ys"
  by (simp add: count_verb_def)

lemma count_verb_single: "count_verb v [q] = (if verb q = v then 1 else 0)"
  by (simp add: count_verb_def)

text \<open>
  \<open>j\<close> rounds of an answer 401 followed by a successful login: the method has sent
  \<open>j\<close> requests of its own and \<open>j\<close> logins, and is at a fresh call of itself, with
  the depth lowered by \<open>j\<close>.
\<close>

lemma retrying_rounds:
  assumes r401: "status_code r401 = 401"
    and st: "status_code rt = 200"
    and js: "json_loads L (content rt) = Some (PDict d)"
    and tk: "map_of d (PStr ''token'') = Some t"
    and tn: "map_of d (PStr ''tenant'') = Some tn"
    and rq: "\<And>c'. session_frame c c' \<Longrightarrow> \<exists>q. rq c' = Inr q \<and> verb q = GET"
    and sc: "script w = concat (replicate j [Inr r401, Inr rt]) @ rest"
  shows "\<exists>c' w'. retrying (j + m) rq k k' L c w = retrying m rq (if j = 0 then k else k') k' L c' w'
           \<and> session_frame c c' \<and> script w' = rest \<and> clock w' = clock w
           \<and> count_verb GET (sent w') = count_verb GET (sent w) + j
           \<and> count_verb POST (sent w') = count_verb POST (sent w) + j"
  using rq sc
proof (induction j arbitrary: c w k)
  case 0
  then show ?case
    by (intro exI[of _ c] exI[of _ w]) (simp add: session_frame_refl)
next
  case (Suc j)
  obtain q where q: "rq c = Inr q" "verb q = GET"
    using Suc.prems(1)[OF session_frame_refl] by blast
  define w1 where "w1 = w\<lparr>script := Inr rt # concat (replicate j [Inr r401, Inr rt]) @ rest,
                          sent := sent w @ [q]\<rparr>"
  have sw: "script w = Inr r401 # Inr rt # concat (replicate j [Inr r401, Inr rt]) @ rest"
    using Suc.prems(2) by simp
  have sw1: "script w1 = Inr rt # concat (replicate j [Inr r401, Inr rt]) @ rest"
    by (simp add: w1_def)
  define c1 where "c1 = token_client c tn"
  define p where "p = token_request L c w1"
  have tok: "dunder_token L c w1 =
        (Inr t, c1, w1\<lparr>script := concat (replicate j [Inr r401, Inr rt]) @ rest,
                       sent := sent w1 @ [p]\<rparr>)"
    unfolding c1_def p_def by (rule dunder_token_ok[OF sw1 st js tk tn])
  have p: "verb p = POST" unfolding p_def by (rule verb_token_request)
  have f1: "session_frame c c1" unfolding c1_def by (rule session_frame_token_client)
  define w2 where "w2 = w1\<lparr>script := concat (replicate j [Inr r401, Inr rt]) @ rest,
                            sent := sent w1 @ [p]\<rparr>"
  define c2 where "c2 = c1\<lparr>token := t\<rparr>"
  have f2: "session_frame c c2" unfolding c2_def using f1 by (rule session_frame_token)
  have step: "retrying (Suc j + m) rq k k' L c w = retrying (j + m) rq k' k' L c2 w2"
    using retrying_401[where rq = rq and c = c and q = q and w = w and r = r401
        and rest = "Inr rt # concat (replicate j [Inr r401, Inr rt]) @ rest"
        and n = "j + m" and k = k and k' = k' and L = L, OF q(1) sw r401] tok
    by (simp add: w1_def w2_def c2_def)
  have rq2: "\<And>c'. session_frame c2 c' \<Longrightarrow> \<exists>q. rq c' = Inr q \<and> verb q = GET"
    using Suc.prems(1) f2 session_frame_trans by blast
  have sw2: "script w2 = concat (replicate j [Inr r401, Inr rt]) @ rest"
    by (simp add: w2_def)
  obtain c' w' where ih:
      "retrying (j + m) rq k' k' L c2 w2 = retrying m rq (if j = 0 then k' else k') k' L c' w'"
      "session_frame c2 c'" "script w' = rest" "clock w' = clock w2"
      "count_verb GET (sent w') = count_verb GET (sent w2) + j"
      "count_verb POST (sent w') = count_verb POST (sent w2) + j"
    using Suc.IH[of c2 w2 k', OF rq2 sw2] by blast
  have cnt: "count_verb GET (sent w2) = count_verb GET (sent w) + 1"
      "count_verb POST (sent w2) = count_verb POST (sent w) + 1"
    using q(2) p by (simp_all add: w2_def w1_def count_verb_def)
  have "retrying (Suc j + m) rq k k' L c w = retrying m rq k' k' L c' w'"
    using step ih(1) by simp
  moreover have "session_frame c c'" using f2 ih(2) by (rule session_frame_trans)
  moreover have "clock w' = clock w" using ih(4) by (simp add: w2_def w1_def)
  ultimately show ?case using ih(3,5,6) cnt by auto
qed

subsection \<open>The constructor: credentials\<close>

text \<open>What the session calls leave of the credentials.\<close>

lemma credentials_kept_refl: "credentials_kept c c"
  by (simp add: credentials_kept_def)

lemma credentials_kept_trans:
  "credentials_kept a b \<Longrightarrow> credentials_kept b c \<Longrightarrow> credentials_kept a c"
  by (auto simp: credentials_kept_def)

lemma credentials_kept_updates:
  "credentials_kept a (c\<lparr>token := t\<rparr>) = credentials_kept a c"
  "credentials_kept a (c\<lparr>version := v\<rparr>) = credentials_kept a c"
  "credentials_kept a (c\<lparr>version_hash := h\<rparr>) = credentials_kept a c"
  "credentials_kept a (c\<lparr>major_version := i\<rparr>) = credentials_kept a c"
  "credentials_kept a (c\<lparr>minor_version := i\<rparr>) = credentials_kept a c"
  "credentials_kept a (c\<lparr>patch_version := i\<rparr>) = credentials_kept a c"
  "credentials_kept a (c\<lparr>xip_ns := x\<rparr>) = credentials_kept a c"
  "credentials_kept a (c\<lparr>entity_ns := x\<rparr>) = credentials_kept a c"
  "credentials_kept a (c\<lparr>rm_ns := x\<rparr>) = credentials_kept a c"
  "credentials_kept a (c\<lparr>sec_ns := x\<rparr>) = credentials_kept a c"
  "credentials_kept a (c\<lparr>admin_ns := x\<rparr>) = credentials_kept a c"
  "credentials_kept a (c\<lparr>roles := r\<rparr>) = credentials_kept a c"
  by (simp_all add: credentials_kept_def)

lemma dunder_token_credentials:
  "fst (snd (dunder_token L c w)) = c
   \<or> (\<not> shared_secret c \<and> tenant c = PNone
       \<and> (\<exists>tn. fst (snd (dunder_token L c w)) = c\<lparr>tenant := tn\<rparr>))"
proof (cases "shared_secret c")
  case True
  then show ?thesis
    by (simp add: dunder_token_def Let_def split: prod.splits sum.splits)
next
  case False
  then show ?thesis
    by (auto simp add: dunder_token_def Let_def split: prod.splits sum.splits)
qed

lemma dunder_token_kept: "credentials_kept c (fst (snd (dunder_token L c w)))"
  using dunder_token_credentials[of L c w] by (auto simp: credentials_kept_def)

lemma dunder_token_kept_from:
  assumes "credentials_kept a c" and "dunder_token L c w = (r, c1, w2)"
  shows "credentials_kept a c1"
  using credentials_kept_trans[OF assms(1) dunder_token_kept[of c L w]] assms(2) by simp

lemma dunder_version_number_kept:
  "credentials_kept a c \<Longrightarrow> credentials_kept a (fst (snd (dunder_version_number n L c w)))"
proof (induction n arbitrary: c w)
  case 0
  then show ?case by simp
next
  case (Suc n)
  have k0: "credentials_kept a (c\<lparr>version_hash := Some ''RHVOMzJHNzdk''\<rparr>)"
    using Suc.prems by (simp add: credentials_kept_updates)
  show ?case
    using Suc.IH k0 dunder_token_kept_from[OF k0]
    by (simp add: Let_def credentials_kept_updates
        split: prod.split sum.split option.split list.split)
qed

lemma dunder_find_user_roles_kept:
  "credentials_kept a c \<Longrightarrow> credentials_kept a (fst (snd (dunder_find_user_roles n L c w)))"
proof (induction n arbitrary: c w)
  case 0
  then show ?case by simp
next
  case (Suc n)
  show ?case
    using Suc.IH Suc.prems dunder_token_kept_from[OF Suc.prems]
    by (simp add: credentials_kept_updates split: prod.split sum.split)
qed

lemma dunder_version_namespace_kept:
  "dunder_version_namespace c = Inr c' \<Longrightarrow> credentials_kept a c \<Longrightarrow> credentials_kept a c'"
  by (auto simp: dunder_version_namespace_def credentials_kept_updates
      split: option.splits if_splits)


lemma connect_kept:
  assumes "connect n L c w = (Inr c', w')"
  shows "credentials_kept c c'"
proof -
  obtain o1 c1 w1 where t: "dunder_token L c w = (o1, c1, w1)"
    by (cases "dunder_token L c w")
  have k1: "credentials_kept c c1"
    by (rule dunder_token_kept_from[OF credentials_kept_refl t])
  show ?thesis
  proof (cases o1)
    case (Inl e)
    then show ?thesis using assms t by (simp add: connect_def)
  next
    case tk: (Inr tk)
    obtain o2 c2 w2 where v: "dunder_version_number n L (c1\<lparr>token := tk\<rparr>) w1 = (o2, c2, w2)"
      by (cases "dunder_version_number n L (c1\<lparr>token := tk\<rparr>) w1")
    have k2: "credentials_kept c c2"
      using dunder_version_number_kept[of c "c1\<lparr>token := tk\<rparr>" n L w1] k1 v
      by (simp add: credentials_kept_updates)
    show ?thesis
    proof (cases o2)
      case (Inl e)
      then show ?thesis using assms t tk v by (simp add: connect_def)
    next
      case ver: (Inr ver)
      show ?thesis
      proof (cases "dunder_version_namespace (c2\<lparr>version := ver\<rparr>)")
        case (Inl e)
        then show ?thesis using assms t tk v ver by (simp add: connect_def)
      next
        case c3: (Inr c3)
        have k3: "credentials_kept c c3"
          using dunder_version_namespace_kept[OF c3, of c] k2
          by (simp add: credentials_kept_updates)
        obtain o4 c4 w3 where r: "dunder_find_user_roles n L c3 w2 = (o4, c4, w3)"
          by (cases "dunder_find_user_roles n L c3 w2")
        have k4: "credentials_kept c c4"
          using dunder_find_user_roles_kept[OF k3, of n L w2] r by simp
        show ?thesis
        proof (cases o4)
          case (Inl e)
          then show ?thesis using assms t tk v ver c3 r by (simp add: connect_def)
        next
          case (Inr rs)
          then have "c' = c4\<lparr>roles := rs\<rparr>"
            using assms t tk v ver c3 r
            by (simp add: connect_def Let_def split: if_splits)
          then show ?thesis using k4 by (simp add: credentials_kept_updates)
        qed
      qed
    qed
  qed
qed













end
